theory Spec2Isabelle
  imports Complex_Main "HOL-Library.Monad_Syntax"
begin

section \<open>Narrow phase ray-triangle intersection (trimesh/ray/ray_triangle_cpu.py)\<close>

text \<open>
  A point or vector is a triple of scalars, a triangle a triple of vertices (a row of
  the \<open>(n, 3, 3)\<close> array), a ray a pair of origin and direction (a row of the \<open>(m, 2, 3)\<close>
  array). The scalar type is a parameter of the definitions, and the general theorems
  hold for every scalar type: they use no law of arithmetic. Two scalar types are used
  for evaluation: the real numbers, that is the arithmetic the code performs on finite
  values when it is computed exactly, and a type of floating-point values with NaN and
  the two infinities, on which the inputs are evaluated that separate the code from its
  specification.

  The constant \<open>TOL_ZERO\<close> is imported by the source from a module that is not part of
  it; every function takes it as the parameter \<open>tol\<close>.
\<close>

type_synonym 'a vec = "'a \<times> 'a \<times> 'a"
type_synonym 'a triangle = "'a vec \<times> 'a vec \<times> 'a vec"
type_synonym 'a ray = "'a vec \<times> 'a vec"

subsection \<open>The numpy operations the code uses\<close>

text \<open>Subtraction of two rows, \<open>np.cross\<close> and \<open>np.dot\<close> on vectors of length three.\<close>

fun vsub :: "'a::minus vec \<Rightarrow> 'a vec \<Rightarrow> 'a vec" where
  "vsub (a1, a2, a3) (b1, b2, b3) = (a1 - b1, a2 - b2, a3 - b3)"

fun cross :: "'a::{minus,times} vec \<Rightarrow> 'a vec \<Rightarrow> 'a vec" where
  "cross (a1, a2, a3) (b1, b2, b3) =
     (a2 * b3 - a3 * b2, a3 * b1 - a1 * b3, a1 * b2 - a2 * b1)"

fun dot :: "'a::{plus,times} vec \<Rightarrow> 'a vec \<Rightarrow> 'a" where
  "dot (a1, a2, a3) (b1, b2, b3) = a1 * b1 + a2 * b2 + a3 * b3"

text \<open>
  An operation on arrays returns \<open>None\<close> where the model does not follow numpy: two
  operands of an elementwise operation, or an array and its boolean index, differ in
  length (numpy broadcasts or raises), or a division meets a zero divisor (numpy yields
  an infinity and a warning).
\<close>

definition ew2 :: "('a \<Rightarrow> 'b \<Rightarrow> 'c) \<Rightarrow> 'a list \<Rightarrow> 'b list \<Rightarrow> 'c list option" where
  "ew2 f xs ys = (if length xs = length ys then Some (map2 f xs ys) else None)"

text \<open>\<open>a[msk]\<close> for a boolean array \<open>msk\<close>: the entries of \<open>a\<close> where it is true.\<close>

definition compress :: "bool list \<Rightarrow> 'a list \<Rightarrow> 'a list" where
  "compress msk xs = map snd (filter fst (zip msk xs))"

definition bool_index :: "'a list \<Rightarrow> bool list \<Rightarrow> 'a list option" where
  "bool_index xs msk = (if length msk = length xs then Some (compress msk xs) else None)"

text \<open>\<open>a[msk] = c\<close> for a scalar \<open>c\<close>.\<close>

definition mask_fill :: "'a list \<Rightarrow> bool list \<Rightarrow> 'a \<Rightarrow> 'a list option" where
  "mask_fill xs msk c =
     (if length msk = length xs then Some (map2 (\<lambda>m x. if m then c else x) msk xs) else None)"

text \<open>
  \<open>a[msk] = vals\<close> for an array \<open>vals\<close>: the entries of \<open>a\<close> where it is true are
  replaced, in order, by the entries of \<open>vals\<close>, which must be as many.
\<close>

fun scatter :: "bool list \<Rightarrow> 'a list \<Rightarrow> 'a list \<Rightarrow> 'a list" where
  "scatter (True # msk) (x # xs) (v # vals) = v # scatter msk xs vals"
| "scatter (False # msk) (x # xs) vals = x # scatter msk xs vals"
| "scatter msk xs vals = xs"

definition mask_assign :: "'a list \<Rightarrow> bool list \<Rightarrow> 'a list \<Rightarrow> 'a list option" where
  "mask_assign xs msk vals =
     (if length msk = length xs \<and> length vals = length (filter id msk)
      then Some (scatter msk xs vals) else None)"

text \<open>\<open>1.0 / a\<close>, elementwise.\<close>

definition reciprocal :: "'a::{zero,one,inverse} list \<Rightarrow> 'a list option" where
  "reciprocal xs = (if 0 \<in> set xs then None else Some (map (\<lambda>x. 1 / x) xs))"

text \<open>\<open>a.any()\<close> for a boolean array.\<close>

definition any :: "bool list \<Rightarrow> bool" where
  "any msk = list_ex id msk"

subsection \<open>\<open>_diag_dot\<close>\<close>

text \<open>The dot product by row; Python's \<open>zip\<close> stops at the shorter argument.\<close>

definition diag_dot :: "'a::{plus,times} vec list \<Rightarrow> 'a vec list \<Rightarrow> 'a list" where
  "diag_dot a b = map (\<lambda>(i, j). dot i j) (zip a b)"

subsection \<open>\<open>ray_triangles\<close>\<close>

text \<open>
  Lines 59 to 74: the edges, the vector \<open>P\<close>, the determinant and the first filter.
  The arrays the later stages read are returned together.
\<close>

definition det_stage ::
  "'a::{plus,minus,times,abs,ord} \<Rightarrow> 'a triangle list \<Rightarrow> 'a vec
     \<Rightarrow> ('a vec list \<times> 'a vec list \<times> 'a vec list \<times> 'a vec list \<times> 'a list \<times> bool list)
          option" where
  "det_stage tol triangles ray_direction = do {
     let candidates = replicate (length triangles) True;
     let vert0 = map (\<lambda>(a, b, c). a) triangles;
     let vert1 = map (\<lambda>(a, b, c). b) triangles;
     let vert2 = map (\<lambda>(a, b, c). c) triangles;
     edge0 \<leftarrow> ew2 vsub vert1 vert0;
     edge1 \<leftarrow> ew2 vsub vert2 vert0;
     let P = map (cross ray_direction) edge1;
     let det = diag_dot edge0 P;
     candidates \<leftarrow> mask_fill candidates (map (\<lambda>x. \<bar>x\<bar> < tol) det) False;
     Some (vert0, edge0, edge1, P, det, candidates)
   }"

text \<open>Lines 76 to 104: the three later filters, each on the survivors of the one before.\<close>

definition ray_triangles ::
  "'a::{zero,one,plus,minus,uminus,times,inverse,abs,ord} \<Rightarrow> 'a triangle list
     \<Rightarrow> 'a vec \<Rightarrow> 'a vec \<Rightarrow> bool list option" where
  "ray_triangles tol triangles ray_origin ray_direction = do {
     (vert0, edge0, edge1, P, det, candidates) \<leftarrow> det_stage tol triangles ray_direction;
     if \<not> any candidates then Some candidates else do {
       det_c \<leftarrow> bool_index det candidates;
       inv_det \<leftarrow> reciprocal det_c;
       vert0_c \<leftarrow> bool_index vert0 candidates;
       let T = map (vsub ray_origin) vert0_c;
       P_c \<leftarrow> bool_index P candidates;
       u \<leftarrow> ew2 (*) (diag_dot T P_c) inv_det;
       outside \<leftarrow> ew2 (\<or>) (map (\<lambda>x. x < - tol) u) (map (\<lambda>x. x > 1 + tol) u);
       let new_candidates = map Not outside;
       candidates \<leftarrow> mask_assign candidates candidates new_candidates;
       if \<not> any candidates then Some candidates else do {
         inv_det \<leftarrow> bool_index inv_det new_candidates;
         T \<leftarrow> bool_index T new_candidates;
         u \<leftarrow> bool_index u new_candidates;
         edge0_c \<leftarrow> bool_index edge0 candidates;
         Q \<leftarrow> ew2 cross T edge0_c;
         v \<leftarrow> ew2 (*) (map (dot ray_direction) Q) inv_det;
         u_v \<leftarrow> ew2 (+) u v;
         outside \<leftarrow> ew2 (\<or>) (map (\<lambda>x. x < - tol) v) (map (\<lambda>x. x > 1 + tol) u_v);
         let new_candidates = map Not outside;
         candidates \<leftarrow> mask_assign candidates candidates new_candidates;
         if \<not> any candidates then Some candidates else do {
           Q \<leftarrow> bool_index Q new_candidates;
           inv_det \<leftarrow> bool_index inv_det new_candidates;
           edge1_c \<leftarrow> bool_index edge1 candidates;
           t \<leftarrow> ew2 (*) (diag_dot edge1_c Q) inv_det;
           mask_assign candidates candidates (map (\<lambda>x. x > tol) t)
         }
       }
     }
   }"

subsection \<open>\<open>rays_triangles_id\<close>\<close>

text \<open>
  A one-dimensional array of booleans or of integers: a candidate set (a mask over the
  triangles or a list of triangle indices) and the entry recorded for a ray.
\<close>

datatype nparray = BoolArr "bool list" | IntArr "int list"

fun size_of :: "nparray \<Rightarrow> nat" where
  "size_of (BoolArr bs) = length bs"
| "size_of (IntArr ns) = length ns"

text \<open>
  The numpy modelled is the current one. \<open>IndexError\<close> is what Python and numpy raise
  for an index out of range and for a boolean index that is neither empty nor as long as
  the array it indexes; \<open>ValueError\<close> is what \<open>np.array\<close> raises on rows of different
  lengths. \<open>OutsideModel\<close> stands for a step that leaves the model: a call of
  \<open>ray_triangles\<close> that does (see above), or \<open>np.array\<close> on a list that still holds \<open>None\<close>.
\<close>

datatype error = IndexError | ValueError | OutsideModel

text \<open>
  The value returned: a boolean when \<open>return_any\<close> is set, otherwise \<open>np.array(hits)\<close>,
  a two-dimensional array given by its rows, one per ray, all of one length and one
  dtype.
\<close>

datatype result = Any bool | Hits "nparray list"

text \<open>\<open>ray_candidates[ray_index]\<close>; the index comes from \<open>enumerate\<close> and is never negative.\<close>

definition getitem :: "'a list \<Rightarrow> nat \<Rightarrow> error + 'a" where
  "getitem xs i = (if i < length xs then Inr (xs ! i) else Inl IndexError)"

text \<open>
  \<open>triangles[candidates]\<close>: a boolean array selects the rows where it is true and must
  be as long as \<open>triangles\<close>, except that an empty boolean array is accepted whatever
  the length of \<open>triangles\<close> and selects nothing; an integer array selects the rows it
  lists, an index \<open>i < 0\<close> naming row \<open>n + i\<close>, and every index must lie in \<open>-n \<le> i < n\<close>.
\<close>

fun take_rows :: "'a list \<Rightarrow> nparray \<Rightarrow> error + 'a list" where
  "take_rows xs (BoolArr bs) =
     (if length bs = length xs \<or> bs = [] then Inr (compress bs xs) else Inl IndexError)"
| "take_rows xs (IntArr ns) =
     (let n = int (length xs) in
      if list_all (\<lambda>i. - n \<le> i \<and> i < n) ns
      then Inr (map (\<lambda>i. xs ! nat (if i < 0 then n + i else i)) ns)
      else Inl IndexError)"

text \<open>
  \<open>np.array(candidates)[hit]\<close>, where \<open>hit\<close> is a boolean array: as long as \<open>candidates\<close>,
  or empty.
\<close>

fun take_hits :: "nparray \<Rightarrow> bool list \<Rightarrow> error + nparray" where
  "take_hits (BoolArr bs) hit =
     (if length hit = length bs \<or> hit = [] then Inr (BoolArr (compress hit bs))
      else Inl IndexError)"
| "take_hits (IntArr ns) hit =
     (if length hit = length ns \<or> hit = [] then Inr (IntArr (compress hit ns))
      else Inl IndexError)"

text \<open>
  \<open>np.array(hits)\<close>, line 49, on the list of the rays' entries. Rows of one length make
  a two-dimensional array, of booleans when every row is boolean and of integers
  otherwise (\<open>True\<close> becomes 1 and \<open>False\<close> 0); rows of different lengths raise
  \<open>ValueError\<close>. The loop has written every entry of \<open>hits\<close> when line 49 is reached.
\<close>

fun to_int :: "nparray \<Rightarrow> nparray" where
  "to_int (BoolArr bs) = IntArr (map (\<lambda>b. if b then 1 else 0) bs)"
| "to_int (IntArr ns) = IntArr ns"

fun is_bool :: "nparray \<Rightarrow> bool" where
  "is_bool (BoolArr bs) = True"
| "is_bool (IntArr ns) = False"

definition coerce :: "nparray list \<Rightarrow> nparray list" where
  "coerce rows = (if list_all is_bool rows then rows else map to_int rows)"

definition np_array :: "nparray option list \<Rightarrow> error + nparray list" where
  "np_array hits =
     (case those hits of
        None \<Rightarrow> Inl OutsideModel
      | Some rows \<Rightarrow>
          if list_all (\<lambda>r. size_of r = size_of (hd rows)) rows then Inr (coerce rows)
          else Inl ValueError)"

text \<open>
  Lines 39 to 42, the head of the loop body: the candidates of this ray (those of the
  ray before when \<open>ray_candidates\<close> is \<open>None\<close>) and the mask \<open>ray_triangles\<close> returns on
  the triangles they select.
\<close>

definition query ::
  "'a::{zero,one,plus,minus,uminus,times,inverse,abs,ord} \<Rightarrow> 'a triangle list
     \<Rightarrow> nparray list option \<Rightarrow> nparray \<Rightarrow> nat \<Rightarrow> 'a ray
     \<Rightarrow> error + (nparray \<times> bool list)" where
  "query tol triangles ray_candidates candidates ray_index ray =
     (case (case ray_candidates of None \<Rightarrow> Inr candidates
            | Some rc \<Rightarrow> getitem rc ray_index) of
        Inl e \<Rightarrow> Inl e
      | Inr candidates \<Rightarrow>
          (case take_rows triangles candidates of
             Inl e \<Rightarrow> Inl e
           | Inr selected \<Rightarrow>
               (case ray_triangles tol selected (fst ray) (snd ray) of
                  None \<Rightarrow> Inl OutsideModel
                | Some hit \<Rightarrow> Inr (candidates, hit))))"

text \<open>
  Lines 38 to 49: the loop over \<open>enumerate(rays)\<close>, with the index of the next ray, the
  rays still to come, and the variables \<open>candidates\<close> and \<open>hits\<close> as they stand (an entry of
  \<open>hits\<close> is \<open>None\<close> until the loop writes it); after the last ray, lines 48 and 49.
\<close>

fun ray_loop ::
  "'a::{zero,one,plus,minus,uminus,times,inverse,abs,ord} \<Rightarrow> 'a triangle list
     \<Rightarrow> nparray list option \<Rightarrow> bool \<Rightarrow> nat \<Rightarrow> 'a ray list \<Rightarrow> nparray
     \<Rightarrow> nparray option list \<Rightarrow> error + result" where
  "ray_loop tol triangles ray_candidates return_any ray_index [] candidates hits =
     (if return_any then Inr (Any False)
      else case np_array hits of Inl e \<Rightarrow> Inl e | Inr rows \<Rightarrow> Inr (Hits rows))"
| "ray_loop tol triangles ray_candidates return_any ray_index (ray # rays) candidates hits =
     (case query tol triangles ray_candidates candidates ray_index ray of
        Inl e \<Rightarrow> Inl e
      | Inr (candidates, hit) \<Rightarrow>
          if return_any then
            (if any hit then Inr (Any True)
             else ray_loop tol triangles ray_candidates return_any (Suc ray_index) rays
                    candidates hits)
          else
            (case take_hits candidates hit of
               Inl e \<Rightarrow> Inl e
             | Inr found \<Rightarrow>
                 ray_loop tol triangles ray_candidates return_any (Suc ray_index) rays
                   candidates (hits[ray_index := Some found])))"

text \<open>
  Lines 35 and 36 set \<open>candidates\<close> to the mask of all triangles (\<open>np.ones\<close> with the
  boolean dtype, which the source names \<open>np.bool\<close>) and \<open>hits\<close> to a list of \<open>None\<close>; the
  loop follows.
\<close>

definition rays_triangles_id ::
  "'a::{zero,one,plus,minus,uminus,times,inverse,abs,ord} \<Rightarrow> 'a triangle list
     \<Rightarrow> 'a ray list \<Rightarrow> nparray list option \<Rightarrow> bool \<Rightarrow> error + result" where
  "rays_triangles_id tol triangles rays ray_candidates return_any =
     ray_loop tol triangles ray_candidates return_any 0 rays
       (BoolArr (replicate (length triangles) True)) (replicate (length rays) None)"

subsection \<open>The test of one triangle, as the specification words it\<close>

text \<open>
  Steps 1 to 6 of the specification for a single triangle: the edges \<open>e0\<close> and \<open>e1\<close>,
  the vector \<open>P\<close>, the determinant, and the parameters \<open>u\<close>, \<open>v\<close> and \<open>t\<close>.
\<close>

fun tri_e0 :: "'a::minus triangle \<Rightarrow> 'a vec" where
  "tri_e0 (v0, v1, v2) = vsub v1 v0"

fun tri_e1 :: "'a::minus triangle \<Rightarrow> 'a vec" where
  "tri_e1 (v0, v1, v2) = vsub v2 v0"

fun tri_v0 :: "'a triangle \<Rightarrow> 'a vec" where
  "tri_v0 (v0, v1, v2) = v0"

definition tri_P :: "'a::{minus,times} vec \<Rightarrow> 'a triangle \<Rightarrow> 'a vec" where
  "tri_P ray_direction tri = cross ray_direction (tri_e1 tri)"

definition tri_det :: "'a::{plus,minus,times} vec \<Rightarrow> 'a triangle \<Rightarrow> 'a" where
  "tri_det ray_direction tri = dot (tri_e0 tri) (tri_P ray_direction tri)"

definition tri_T :: "'a::minus vec \<Rightarrow> 'a triangle \<Rightarrow> 'a vec" where
  "tri_T ray_origin tri = vsub ray_origin (tri_v0 tri)"

definition tri_u ::
  "'a::{one,plus,minus,times,inverse} vec \<Rightarrow> 'a vec \<Rightarrow> 'a triangle \<Rightarrow> 'a" where
  "tri_u ray_origin ray_direction tri =
     dot (tri_T ray_origin tri) (tri_P ray_direction tri) * (1 / tri_det ray_direction tri)"

definition tri_Q :: "'a::{minus,times} vec \<Rightarrow> 'a triangle \<Rightarrow> 'a vec" where
  "tri_Q ray_origin tri = cross (tri_T ray_origin tri) (tri_e0 tri)"

definition tri_v ::
  "'a::{one,plus,minus,times,inverse} vec \<Rightarrow> 'a vec \<Rightarrow> 'a triangle \<Rightarrow> 'a" where
  "tri_v ray_origin ray_direction tri =
     dot ray_direction (tri_Q ray_origin tri) * (1 / tri_det ray_direction tri)"

definition tri_t ::
  "'a::{one,plus,minus,times,inverse} vec \<Rightarrow> 'a vec \<Rightarrow> 'a triangle \<Rightarrow> 'a" where
  "tri_t ray_origin ray_direction tri =
     dot (tri_e1 tri) (tri_Q ray_origin tri) * (1 / tri_det ray_direction tri)"

definition moller_trumbore ::
  "'a::{zero,one,plus,minus,uminus,times,inverse,abs,ord} \<Rightarrow> 'a vec \<Rightarrow> 'a vec
     \<Rightarrow> 'a triangle \<Rightarrow> bool" where
  "moller_trumbore tol ray_origin ray_direction tri =
     (\<bar>tri_det ray_direction tri\<bar> \<ge> tol
      \<and> - tol \<le> tri_u ray_origin ray_direction tri
      \<and> tri_u ray_origin ray_direction tri \<le> 1 + tol
      \<and> tri_v ray_origin ray_direction tri \<ge> - tol
      \<and> tri_u ray_origin ray_direction tri + tri_v ray_origin ray_direction tri \<le> 1 + tol
      \<and> tri_t ray_origin ray_direction tri > tol)"

text \<open>
  The four filters of the code, in the form the code writes them: the first three remove
  a triangle when a comparison holds, the last keeps it when one does.
\<close>

definition pass_det ::
  "'a::{plus,minus,times,abs,ord} \<Rightarrow> 'a vec \<Rightarrow> 'a triangle \<Rightarrow> bool" where
  "pass_det tol d t = (\<not> \<bar>tri_det d t\<bar> < tol)"

definition pass_u ::
  "'a::{zero,one,plus,minus,uminus,times,inverse,abs,ord} \<Rightarrow> 'a vec \<Rightarrow> 'a vec
     \<Rightarrow> 'a triangle \<Rightarrow> bool" where
  "pass_u tol orig d t = (\<not> (tri_u orig d t < - tol \<or> tri_u orig d t > 1 + tol))"

definition pass_v ::
  "'a::{zero,one,plus,minus,uminus,times,inverse,abs,ord} \<Rightarrow> 'a vec \<Rightarrow> 'a vec
     \<Rightarrow> 'a triangle \<Rightarrow> bool" where
  "pass_v tol orig d t =
     (\<not> (tri_v orig d t < - tol \<or> tri_u orig d t + tri_v orig d t > 1 + tol))"

definition pass_t ::
  "'a::{zero,one,plus,minus,uminus,times,inverse,abs,ord} \<Rightarrow> 'a vec \<Rightarrow> 'a vec
     \<Rightarrow> 'a triangle \<Rightarrow> bool" where
  "pass_t tol orig d t = (tri_t orig d t > tol)"

text \<open>
  The test of one triangle as the code makes it: the conjunction of the four filters.
\<close>

definition survives ::
  "'a::{zero,one,plus,minus,uminus,times,inverse,abs,ord} \<Rightarrow> 'a vec \<Rightarrow> 'a vec
     \<Rightarrow> 'a triangle \<Rightarrow> bool" where
  "survives tol ray_origin ray_direction tri =
     (\<not> \<bar>tri_det ray_direction tri\<bar> < tol
      \<and> \<not> tri_u ray_origin ray_direction tri < - tol
      \<and> \<not> tri_u ray_origin ray_direction tri > 1 + tol
      \<and> \<not> tri_v ray_origin ray_direction tri < - tol
      \<and> \<not> tri_u ray_origin ray_direction tri + tri_v ray_origin ray_direction tri > 1 + tol
      \<and> tri_t ray_origin ray_direction tri > tol)"

subsection \<open>Floating-point values\<close>

text \<open>
  A scalar type with the special values of IEEE-754 arithmetic: not-a-number and the two
  infinities, beside the finite values. Finite values are real numbers and finite results
  are exact: rounding is not modelled, nor are underflow and the sign of zero. The
  concrete inputs evaluated at this type below are chosen so that every finite
  intermediate result is a double, which no rounding changes.
\<close>

datatype ieee = NaN | PInf | NInf | Fin real

text \<open>
  The result of an operation on finite values: an exact result that IEEE-754 rounds to an
  infinity (its magnitude is at least \<open>2 ^ 1024 - 2 ^ 970\<close>) becomes that infinity, and every
  other result is kept as it is.
\<close>

definition overflow :: "real \<Rightarrow> ieee" where
  "overflow r =
     (if 2 ^ 1024 - 2 ^ 970 \<le> r then PInf
      else if r \<le> - (2 ^ 1024 - 2 ^ 970) then NInf
      else Fin r)"

text \<open>
  Addition, negation, subtraction, multiplication, division, absolute value and the two
  comparisons, as IEEE-754 defines them on NaN and the infinities: NaN is the result of
  every operation on NaN, of \<open>\<infinity> - \<infinity>\<close>, \<open>0 \<sqdot> \<infinity>\<close>, \<open>\<infinity> / \<infinity>\<close> and \<open>0 / 0\<close>, and every
  comparison with NaN is false.
\<close>

instantiation ieee :: "{zero,one,plus,minus,uminus,times,inverse,abs,ord}"
begin

definition zero_ieee :: ieee where
  "zero_ieee = Fin 0"

definition one_ieee :: ieee where
  "one_ieee = Fin 1"

fun plus_ieee :: "ieee \<Rightarrow> ieee \<Rightarrow> ieee" where
  "plus_ieee NaN y = NaN"
| "plus_ieee x NaN = NaN"
| "plus_ieee PInf NInf = NaN"
| "plus_ieee NInf PInf = NaN"
| "plus_ieee PInf y = PInf"
| "plus_ieee NInf y = NInf"
| "plus_ieee (Fin a) PInf = PInf"
| "plus_ieee (Fin a) NInf = NInf"
| "plus_ieee (Fin a) (Fin b) = overflow (a + b)"

fun uminus_ieee :: "ieee \<Rightarrow> ieee" where
  "uminus_ieee NaN = NaN"
| "uminus_ieee PInf = NInf"
| "uminus_ieee NInf = PInf"
| "uminus_ieee (Fin a) = Fin (- a)"

definition minus_ieee :: "ieee \<Rightarrow> ieee \<Rightarrow> ieee" where
  "minus_ieee x y = x + (- y)"

fun times_ieee :: "ieee \<Rightarrow> ieee \<Rightarrow> ieee" where
  "times_ieee NaN y = NaN"
| "times_ieee x NaN = NaN"
| "times_ieee (Fin a) (Fin b) = overflow (a * b)"
| "times_ieee (Fin a) y = (if a = 0 then NaN else if 0 < a then y else - y)"
| "times_ieee x (Fin b) = (if b = 0 then NaN else if 0 < b then x else - x)"
| "times_ieee PInf y = y"
| "times_ieee NInf y = - y"

fun divide_ieee :: "ieee \<Rightarrow> ieee \<Rightarrow> ieee" where
  "divide_ieee NaN y = NaN"
| "divide_ieee x NaN = NaN"
| "divide_ieee (Fin a) (Fin b) =
     (if b = 0 then (if a = 0 then NaN else if 0 < a then PInf else NInf)
      else overflow (a / b))"
| "divide_ieee (Fin a) y = Fin 0"
| "divide_ieee x (Fin b) = (if 0 \<le> b then x else - x)"
| "divide_ieee x y = NaN"

definition inverse_ieee :: "ieee \<Rightarrow> ieee" where
  "inverse_ieee x = Fin 1 div x"

fun abs_ieee :: "ieee \<Rightarrow> ieee" where
  "abs_ieee NaN = NaN"
| "abs_ieee PInf = PInf"
| "abs_ieee NInf = PInf"
| "abs_ieee (Fin a) = Fin \<bar>a\<bar>"

fun less_ieee :: "ieee \<Rightarrow> ieee \<Rightarrow> bool" where
  "less_ieee NaN y = False"
| "less_ieee x NaN = False"
| "less_ieee (Fin a) (Fin b) = (a < b)"
| "less_ieee x NInf = False"
| "less_ieee PInf y = False"
| "less_ieee x y = True"

fun less_eq_ieee :: "ieee \<Rightarrow> ieee \<Rightarrow> bool" where
  "less_eq_ieee NaN y = False"
| "less_eq_ieee x NaN = False"
| "less_eq_ieee (Fin a) (Fin b) = (a \<le> b)"
| "less_eq_ieee NInf y = True"
| "less_eq_ieee x PInf = True"
| "less_eq_ieee x y = False"

instance ..

end

text \<open>A finite value whose square overflows.\<close>

definition huge :: real where
  "huge = 2 ^ 512"

text \<open>A vector, a triangle with a NaN coordinate.\<close>

fun vec_nan :: "ieee vec \<Rightarrow> bool" where
  "vec_nan (a1, a2, a3) = (a1 = NaN \<or> a2 = NaN \<or> a3 = NaN)"

fun tri_nan :: "ieee triangle \<Rightarrow> bool" where
  "tri_nan (v0, v1, v2) = (vec_nan v0 \<or> vec_nan v1 \<or> vec_nan v2)"

section \<open>Properties of \<open>ray_triangles\<close>\<close>

subsection \<open>Arrays computed row by row\<close>

lemma compress_map: "compress (map p xs) (map f xs) = map f (filter p xs)"
  by (induction xs) (auto simp: compress_def)

lemma scatter_map:
  "scatter (map p xs) (map p xs) (map q (filter p xs)) = map (\<lambda>x. p x \<and> q x) xs"
  by (induction xs) auto

lemma any_map: "any (map p xs) \<longleftrightarrow> (\<exists>x\<in>set xs. p x)"
  by (induction xs) (auto simp: any_def)

lemma ew2_map: "ew2 f (map g xs) (map h xs) = Some (map (\<lambda>x. f (g x) (h x)) xs)"
  by (simp add: ew2_def zip_map_map zip_same_conv_map)

lemma diag_dot_map: "diag_dot (map g xs) (map h xs) = map (\<lambda>x. dot (g x) (h x)) xs"
  by (simp add: diag_dot_def zip_map_map zip_same_conv_map)

lemma bool_index_map: "bool_index (map f xs) (map p xs) = Some (map f (filter p xs))"
  by (simp add: bool_index_def compress_map)

lemma mask_assign_map:
  "mask_assign (map p xs) (map p xs) (map q (filter p xs)) = Some (map (\<lambda>x. p x \<and> q x) xs)"
  by (simp add: mask_assign_def scatter_map)

lemma mask_fill_map:
  "mask_fill (replicate (length xs) True) (map p xs) False = Some (map (\<lambda>x. \<not> p x) xs)"
  unfolding mask_fill_def by (induction xs) auto

lemma reciprocal_map:
  "\<forall>x\<in>set xs. f x \<noteq> 0 \<Longrightarrow> reciprocal (map f xs) = Some (map (\<lambda>x. 1 / f x) xs)"
  by (auto simp: reciprocal_def)

subsection \<open>The first stage\<close>

lemma vert_sel: "(\<lambda>(a, b, c). a) = tri_v0"
  by (auto simp: fun_eq_iff)

lemma det_stage_eq:
  "det_stage tol tris d =
     Some (map tri_v0 tris, map tri_e0 tris, map tri_e1 tris, map (tri_P d) tris,
           map (tri_det d) tris, map (\<lambda>t. \<not> \<bar>tri_det d t\<bar> < tol) tris)"
proof -
  have e0: "ew2 vsub (map (\<lambda>(a, b, c). b) tris) (map tri_v0 tris) = Some (map tri_e0 tris)"
    by (auto simp: ew2_map)
  have e1: "ew2 vsub (map (\<lambda>(a, b, c). c) tris) (map tri_v0 tris) = Some (map tri_e1 tris)"
    by (auto simp: ew2_map)
  have P: "map (cross d) (map tri_e1 tris) = map (tri_P d) tris"
    by (simp add: tri_P_def)
  have det: "diag_dot (map tri_e0 tris) (map (tri_P d) tris) = map (tri_det d) tris"
    by (simp add: diag_dot_map tri_det_def)
  have fill: "mask_fill (replicate (length tris) True)
       (map (\<lambda>x. \<bar>x\<bar> < tol) (map (tri_det d) tris)) False
     = Some (map (\<lambda>t. \<not> \<bar>tri_det d t\<bar> < tol) tris)"
    using mask_fill_map [of tris "\<lambda>t. \<bar>tri_det d t\<bar> < tol"] by (simp add: comp_def)
  show ?thesis
    by (simp only: det_stage_def Let_def vert_sel e0 e1 bind.bind_lunit P det fill)
qed

subsection \<open>The later stages, on the survivors\<close>

lemma T_eq: "map (vsub orig) (map tri_v0 xs) = map (tri_T orig) xs"
  by (simp add: tri_T_def)

lemma u_eq:
  "ew2 (*) (diag_dot (map (tri_T orig) xs) (map (tri_P d) xs)) (map (\<lambda>t. 1 / tri_det d t) xs)
     = Some (map (tri_u orig d) xs)"
  by (simp add: diag_dot_map ew2_map tri_u_def)

lemma out_u:
  "ew2 (\<or>) (map (\<lambda>x. x < - tol) (map (tri_u orig d) xs))
              (map (\<lambda>x. x > 1 + tol) (map (tri_u orig d) xs))
     = Some (map (\<lambda>t. \<not> pass_u tol orig d t) xs)"
  by (simp add: ew2_map pass_u_def comp_def)

lemma Not_map: "map Not (map (\<lambda>t. \<not> p t) xs) = map p xs"
  by simp

lemma Q_eq: "ew2 cross (map (tri_T orig) xs) (map tri_e0 xs) = Some (map (tri_Q orig) xs)"
  by (simp add: ew2_map tri_Q_def)

lemma v_eq:
  "ew2 (*) (map (dot d) (map (tri_Q orig) xs)) (map (\<lambda>t. 1 / tri_det d t) xs)
     = Some (map (tri_v orig d) xs)"
  by (simp add: ew2_map tri_v_def comp_def)

lemma uv_eq:
  "ew2 (+) (map (tri_u orig d) xs) (map (tri_v orig d) xs)
     = Some (map (\<lambda>t. tri_u orig d t + tri_v orig d t) xs)"
  by (simp add: ew2_map)

lemma out_v:
  "ew2 (\<or>) (map (\<lambda>x. x < - tol) (map (tri_v orig d) xs))
              (map (\<lambda>x. x > 1 + tol) (map (\<lambda>t. tri_u orig d t + tri_v orig d t) xs))
     = Some (map (\<lambda>t. \<not> pass_v tol orig d t) xs)"
  by (simp add: ew2_map pass_v_def comp_def)

lemma t_eq:
  "ew2 (*) (diag_dot (map tri_e1 xs) (map (tri_Q orig) xs)) (map (\<lambda>t. 1 / tri_det d t) xs)
     = Some (map (tri_t orig d) xs)"
  by (simp add: diag_dot_map ew2_map tri_t_def)

lemma gt_t: "map (\<lambda>x. x > tol) (map (tri_t orig d) xs) = map (pass_t tol orig d) xs"
  by (simp add: pass_t_def comp_def)

lemma recip_det:
  assumes "\<forall>t\<in>set xs. pass_det tol d t \<longrightarrow> tri_det d t \<noteq> 0"
  shows "reciprocal (map (tri_det d) (filter (pass_det tol d) xs))
           = Some (map (\<lambda>t. 1 / tri_det d t) (filter (pass_det tol d) xs))"
  using assms by (intro reciprocal_map) auto

text \<open>
  Provided no surviving determinant is zero, the staged computation returns, for every
  triangle, the conjunction of the four filters.
\<close>

lemma ray_triangles_staged:
  assumes "\<forall>t\<in>set tris. pass_det tol d t \<longrightarrow> tri_det d t \<noteq> 0"
  shows "ray_triangles tol tris orig d =
     Some (map (\<lambda>t. ((pass_det tol d t \<and> pass_u tol orig d t) \<and> pass_v tol orig d t)
                       \<and> pass_t tol orig d t) tris)"
proof -
  let ?c1 = "map (pass_det tol d) tris"
  let ?c2 = "map (\<lambda>t. pass_det tol d t \<and> pass_u tol orig d t) tris"
  let ?c3 = "map (\<lambda>t. (pass_det tol d t \<and> pass_u tol orig d t) \<and> pass_v tol orig d t) tris"
  let ?c4 = "map (\<lambda>t. ((pass_det tol d t \<and> pass_u tol orig d t) \<and> pass_v tol orig d t)
                       \<and> pass_t tol orig d t) tris"
  have st: "det_stage tol tris d =
     Some (map tri_v0 tris, map tri_e0 tris, map tri_e1 tris, map (tri_P d) tris,
           map (tri_det d) tris, ?c1)"
    by (simp add: det_stage_eq pass_det_def)
  have e1: "\<not> any ?c1 \<Longrightarrow> ?c1 = ?c4"
    by (auto simp: any_map)
  have e2: "\<not> any ?c2 \<Longrightarrow> ?c2 = ?c4"
    by (auto simp: any_map)
  have e3: "\<not> any ?c3 \<Longrightarrow> ?c3 = ?c4"
    by (auto simp: any_map)
  have ff: "\<And>p q. filter q (filter p tris) = filter (\<lambda>t. p t \<and> q t) tris"
    by simp
  have stages: "ray_triangles tol tris orig d =
    (if \<not> any ?c1 then Some ?c1
     else if \<not> any ?c2 then Some ?c2 else if \<not> any ?c3 then Some ?c3 else Some ?c4)"
    unfolding ray_triangles_def st bind.bind_lunit prod.case Let_def
    by (simp only: bool_index_map recip_det [OF assms] bind.bind_lunit T_eq u_eq out_u
        Not_map mask_assign_map ff Q_eq v_eq uv_eq out_v t_eq gt_t)
  show ?thesis
  proof (cases "any ?c1")
    case False
    then show ?thesis using e1 stages by simp
  next
    case c1: True
    show ?thesis
    proof (cases "any ?c2")
      case False
      then show ?thesis using c1 e2 stages by simp
    next
      case c2: True
      show ?thesis
      proof (cases "any ?c3")
        case False
        then show ?thesis using c1 c2 e3 stages by simp
      next
        case True
        then show ?thesis using c1 c2 stages by simp
      qed
    qed
  qed
qed

subsection \<open>The mask, whatever the arithmetic\<close>

lemma survives_pass:
  "(\<lambda>t. ((pass_det tol d t \<and> pass_u tol orig d t) \<and> pass_v tol orig d t) \<and> pass_t tol orig d t)
     = survives tol orig d"
  by (auto simp: fun_eq_iff survives_def pass_det_def pass_u_def pass_v_def pass_t_def)

lemma ray_triangles_survives:
  assumes "\<forall>t\<in>set tris. \<not> \<bar>tri_det d t\<bar> < tol \<longrightarrow> tri_det d t \<noteq> 0"
  shows "ray_triangles tol tris orig d = Some (map (survives tol orig d) tris)"
proof -
  have "\<forall>t\<in>set tris. pass_det tol d t \<longrightarrow> tri_det d t \<noteq> 0"
    using assms by (simp add: pass_det_def)
  then show ?thesis
    by (simp only: ray_triangles_staged survives_pass)
qed

subsection \<open>Real coordinates\<close>

lemma pass_all:
  fixes tol :: real
  shows "(((pass_det tol d t \<and> pass_u tol orig d t) \<and> pass_v tol orig d t) \<and> pass_t tol orig d t)
     = moller_trumbore tol orig d t"
  by (auto simp: pass_det_def pass_u_def pass_v_def pass_t_def moller_trumbore_def)

lemma ray_triangles_eq:
  fixes tol :: real
  assumes "0 < tol"
  shows "ray_triangles tol tris orig d = Some (map (moller_trumbore tol orig d) tris)"
proof -
  have "\<forall>t\<in>set tris. pass_det tol d t \<longrightarrow> tri_det d t \<noteq> 0"
    using assms by (auto simp: pass_det_def)
  then show ?thesis
    by (simp only: ray_triangles_staged pass_all)
qed

lemmas tri_defs = moller_trumbore_def tri_u_def tri_v_def tri_t_def tri_det_def tri_P_def
  tri_Q_def tri_T_def

subsection \<open>Two triangles in floating-point values\<close>

lemmas ieee_defs = zero_ieee_def one_ieee_def minus_ieee_def overflow_def

lemmas tri_steps = tri_u_def tri_v_def tri_t_def tri_det_def tri_P_def tri_Q_def tri_T_def

lemma huge_ge_1: "1 \<le> huge"
  by (simp add: huge_def)

text \<open>
  A triangle in the plane \<open>z = 0\<close> with an edge of length \<open>huge = 2 ^ 512\<close>, and a ray from
  \<open>(huge / 4, -5, huge)\<close> in direction \<open>(0, 0, -1)\<close>; it passes the plane at \<open>y = -5\<close>, outside
  the triangle. The product \<open>huge \<sqdot> huge\<close> in \<open>Q\<close> overflows.
\<close>

lemma overflow_det:
  "tri_det (Fin 0, Fin 0, Fin (- 1))
      ((Fin 0, Fin 0, Fin 0), (Fin huge, Fin 0, Fin 0), (Fin 0, Fin 1, Fin 0)) = Fin huge"
  by (simp add: tri_steps ieee_defs huge_def)

lemma overflow_u:
  "tri_u (Fin (huge / 4), Fin (- 5), Fin huge) (Fin 0, Fin 0, Fin (- 1))
      ((Fin 0, Fin 0, Fin 0), (Fin huge, Fin 0, Fin 0), (Fin 0, Fin 1, Fin 0)) = Fin (1 / 4)"
  by (simp add: tri_steps ieee_defs huge_def)

lemma overflow_v:
  "tri_v (Fin (huge / 4), Fin (- 5), Fin huge) (Fin 0, Fin 0, Fin (- 1))
      ((Fin 0, Fin 0, Fin 0), (Fin huge, Fin 0, Fin 0), (Fin 0, Fin 1, Fin 0)) = NaN"
  by (simp add: tri_steps ieee_defs huge_def)

lemma overflow_t:
  "tri_t (Fin (huge / 4), Fin (- 5), Fin huge) (Fin 0, Fin 0, Fin (- 1))
      ((Fin 0, Fin 0, Fin 0), (Fin huge, Fin 0, Fin 0), (Fin 0, Fin 1, Fin 0)) = PInf"
  by (simp add: tri_steps ieee_defs huge_def)

lemma overflow_survives:
  "survives (Fin (1 / 10 ^ 12)) (Fin (huge / 4), Fin (- 5), Fin huge) (Fin 0, Fin 0, Fin (- 1))
      ((Fin 0, Fin 0, Fin 0), (Fin huge, Fin 0, Fin 0), (Fin 0, Fin 1, Fin 0))"
  unfolding survives_def overflow_det overflow_u overflow_v overflow_t
  using huge_ge_1 by (simp add: ieee_defs)

text \<open>
  A triangle with two equal vertices \<open>(huge, huge, 0)\<close>: the two products in its
  determinant overflow to infinities of opposite signs.
\<close>

lemma degenerate_det:
  "tri_det (Fin 0, Fin 0, Fin 1)
      ((Fin 0, Fin 0, Fin 0), (Fin huge, Fin huge, Fin 0),
       (Fin huge, Fin huge, Fin 0)) = NaN"
  by (simp add: tri_steps ieee_defs huge_def)

text \<open>
  Claim C2, as stated: the entry of a triangle is true exactly when the six conditions
  hold for it. For the first triangle above \<open>det = huge\<close>, \<open>u = 1/4\<close>, \<open>v\<close> is NaN and \<open>t\<close> is
  \<open>+\<infinity>\<close>: the conditions \<open>v \<ge> - tol\<close> and \<open>u + v \<le> 1 + tol\<close> are false, and the entry is true.
\<close>

theorem ray_triangles_mask_counterexample:
  "ray_triangles (Fin (1 / 10 ^ 12))
      [((Fin 0, Fin 0, Fin 0), (Fin huge, Fin 0, Fin 0), (Fin 0, Fin 1, Fin 0))]
      (Fin (huge / 4), Fin (- 5), Fin huge) (Fin 0, Fin 0, Fin (- 1)) = Some [True]
   \<and> \<not> moller_trumbore (Fin (1 / 10 ^ 12)) (Fin (huge / 4), Fin (- 5), Fin huge) (Fin 0, Fin 0, Fin (- 1))
      ((Fin 0, Fin 0, Fin 0), (Fin huge, Fin 0, Fin 0), (Fin 0, Fin 1, Fin 0))
   \<and> tri_v (Fin (huge / 4), Fin (- 5), Fin huge) (Fin 0, Fin 0, Fin (- 1))
      ((Fin 0, Fin 0, Fin 0), (Fin huge, Fin 0, Fin 0), (Fin 0, Fin 1, Fin 0)) = NaN"
proof -
  have h: "\<forall>t\<in>set [((Fin 0, Fin 0, Fin 0), (Fin huge, Fin 0, Fin 0), (Fin 0, Fin 1, Fin 0))].
      \<not> \<bar>tri_det (Fin 0, Fin 0, Fin (- 1)) t\<bar> < Fin (1 / 10 ^ 12) \<longrightarrow> tri_det (Fin 0, Fin 0, Fin (- 1)) t \<noteq> 0"
    using huge_ge_1 by (simp add: overflow_det ieee_defs)
  have "ray_triangles (Fin (1 / 10 ^ 12))
      [((Fin 0, Fin 0, Fin 0), (Fin huge, Fin 0, Fin 0), (Fin 0, Fin 1, Fin 0))]
      (Fin (huge / 4), Fin (- 5), Fin huge) (Fin 0, Fin 0, Fin (- 1))
     = Some (map (survives (Fin (1 / 10 ^ 12)) (Fin (huge / 4), Fin (- 5), Fin huge) (Fin 0, Fin 0, Fin (- 1)))
         [((Fin 0, Fin 0, Fin 0), (Fin huge, Fin 0, Fin 0), (Fin 0, Fin 1, Fin 0))])"
    using h by (rule ray_triangles_survives)
  then have "ray_triangles (Fin (1 / 10 ^ 12))
      [((Fin 0, Fin 0, Fin 0), (Fin huge, Fin 0, Fin 0), (Fin 0, Fin 1, Fin 0))]
      (Fin (huge / 4), Fin (- 5), Fin huge) (Fin 0, Fin 0, Fin (- 1)) = Some [True]"
    by (simp only: list.map overflow_survives)
  moreover have "\<not> moller_trumbore (Fin (1 / 10 ^ 12)) (Fin (huge / 4), Fin (- 5), Fin huge) (Fin 0, Fin 0, Fin (- 1))
      ((Fin 0, Fin 0, Fin 0), (Fin huge, Fin 0, Fin 0), (Fin 0, Fin 1, Fin 0))"
    unfolding moller_trumbore_def overflow_det overflow_u overflow_v overflow_t
    by (simp add: ieee_defs)
  ultimately show ?thesis
    using overflow_v by (intro conjI)
qed

text \<open>
  Claim C2, amended. For every arithmetic, and every batch in which no determinant that
  passes the first filter is zero, \<open>ray_triangles\<close> returns a mask with one entry per
  triangle of the batch, in the order of the batch, and the entry of a triangle is true
  exactly when none of the comparisons \<open>\<bar>det\<bar> < tol\<close>, \<open>u < - tol\<close>, \<open>u > 1 + tol\<close>,
  \<open>v < - tol\<close>, \<open>u + v > 1 + tol\<close> holds and \<open>t > tol\<close> holds, with \<open>det\<close>, \<open>u\<close>, \<open>v\<close> and \<open>t\<close> as
  steps 1 to 6 of the specification compute them.
\<close>

theorem ray_triangles_mask:
  assumes "\<forall>t\<in>set triangles. \<not> \<bar>tri_det ray_direction t\<bar> < tol
             \<longrightarrow> tri_det ray_direction t \<noteq> 0"
  shows "ray_triangles tol triangles ray_origin ray_direction =
           Some (map (survives tol ray_origin ray_direction) triangles)"
  using assms by (rule ray_triangles_survives)

theorem ray_triangles_mask_witness:
  "tri_det (0, 0, - 1) ((0, 0, 0), (1, 0, 0), (0, 1, 0)) \<noteq> (0 :: real)
   \<and> tri_det (0, 0, - 1) ((0, 0, 5), (1, 0, 5), (0, 1, 5)) \<noteq> (0 :: real)
   \<and> \<bar>tri_det (0, 0, - 1) ((0, 0, 0), (1, 0, 0), (2, 0, 0))\<bar> < (1 / 10 ^ 12 :: real)
   \<and> ray_triangles (1 / 10 ^ 12 :: real)
     [((0, 0, 0), (1, 0, 0), (0, 1, 0)), ((0, 0, 5), (1, 0, 5), (0, 1, 5)),
      ((0, 0, 0), (1, 0, 0), (2, 0, 0))] (1 / 4, 1 / 4, 1) (0, 0, - 1)
     = Some [True, False, False]"
proof -
  have h: "\<forall>t\<in>set [((0, 0, 0), (1, 0, 0), (0, 1, 0)), ((0, 0, 5), (1, 0, 5), (0, 1, 5)),
      ((0, 0, 0), (1, 0, 0), (2, 0, 0))].
      \<not> \<bar>tri_det (0, 0, - 1) t\<bar> < (1 / 10 ^ 12 :: real) \<longrightarrow> tri_det (0, 0, - 1) t \<noteq> 0"
    by (simp add: tri_steps)
  show ?thesis
    using ray_triangles_mask [OF h, of "(1 / 4, 1 / 4, 1)"]
    by (simp add: survives_def tri_steps)
qed

text \<open>
  Claim C3, as stated: a triangle survives the determinant filter only if \<open>\<bar>det\<bar> \<ge> tol\<close>.
  The determinant of the second triangle above is NaN, \<open>\<bar>det\<bar> \<ge> tol\<close> is false, and the
  triangle is a candidate after the filter.
\<close>

theorem det_filter_counterexample:
  "det_stage (Fin (1 / 10 ^ 12))
      [((Fin 0, Fin 0, Fin 0), (Fin huge, Fin huge, Fin 0),
       (Fin huge, Fin huge, Fin 0))] (Fin 0, Fin 0, Fin 1)
     = Some ([(Fin 0, Fin 0, Fin 0)], [(Fin huge, Fin huge, Fin 0)],
             [(Fin huge, Fin huge, Fin 0)],
             [(Fin (- huge), Fin huge, Fin 0)], [NaN], [True])
   \<and> \<not> Fin (1 / 10 ^ 12) \<le> \<bar>NaN\<bar>"
  by (simp add: det_stage_eq degenerate_det) (simp add: tri_P_def ieee_defs huge_def)

text \<open>
  Claim C3, amended. For every arithmetic: the determinant of triangle \<open>i\<close> is \<open>e0 \<cdot> P\<close>
  with \<open>P\<close> the cross product of the ray direction and \<open>e1\<close>; the first filter removes the
  triangle exactly when \<open>\<bar>det\<bar> < tol\<close> holds; and, in a batch in which no determinant
  that passes the first filter is zero, a triangle the first filter removed is not a hit
  in the mask \<open>ray_triangles\<close> returns.
\<close>

theorem det_filter_excludes:
  assumes "\<forall>t\<in>set triangles. \<not> \<bar>tri_det ray_direction t\<bar> < tol
             \<longrightarrow> tri_det ray_direction t \<noteq> 0"
    and "det_stage tol triangles ray_direction = Some (vert0, edge0, edge1, P, det, candidates)"
    and "i < length triangles"
  shows "det ! i = dot (edge0 ! i) (P ! i)
     \<and> edge0 ! i = tri_e0 (triangles ! i)
     \<and> P ! i = cross ray_direction (tri_e1 (triangles ! i))
     \<and> (\<not> candidates ! i \<longleftrightarrow> \<bar>det ! i\<bar> < tol)
     \<and> (\<exists>hit. ray_triangles tol triangles ray_origin ray_direction = Some hit
           \<and> length hit = length triangles \<and> (\<not> candidates ! i \<longrightarrow> \<not> hit ! i))"
proof -
  from assms(2) have eqs:
    "edge0 = map tri_e0 triangles" "P = map (tri_P ray_direction) triangles"
    "det = map (tri_det ray_direction) triangles"
    "candidates = map (\<lambda>t. \<not> \<bar>tri_det ray_direction t\<bar> < tol) triangles"
    by (simp_all add: det_stage_eq)
  have "det ! i = dot (edge0 ! i) (P ! i)"
    using assms(3) by (simp add: eqs tri_det_def)
  moreover have "edge0 ! i = tri_e0 (triangles ! i)"
    using assms(3) by (simp add: eqs)
  moreover have "P ! i = cross ray_direction (tri_e1 (triangles ! i))"
    using assms(3) by (simp add: eqs tri_P_def)
  moreover have "\<not> candidates ! i \<longleftrightarrow> \<bar>det ! i\<bar> < tol"
    using assms(3) by (simp add: eqs)
  moreover have "\<exists>hit. ray_triangles tol triangles ray_origin ray_direction = Some hit
           \<and> length hit = length triangles \<and> (\<not> candidates ! i \<longrightarrow> \<not> hit ! i)"
    using assms(3) by (simp add: ray_triangles_survives [OF assms(1)] eqs survives_def)
  ultimately show ?thesis
    by blast
qed

theorem det_filter_excludes_witness:
  "det_stage (1 / 10 ^ 12 :: real)
      [((0, 0, 0), (1, 0, 0), (0, 1, 0)), ((0, 0, 0), (1, 0, 0), (2, 0, 0))] (0, 0, - 1)
    = Some ([(0, 0, 0), (0, 0, 0)], [(1, 0, 0), (1, 0, 0)], [(0, 1, 0), (2, 0, 0)],
            [(1, 0, 0), (0, - 2, 0)], [1, 0], [True, False])
   \<and> (1::nat) < length [((0, 0, 0), (1, 0, 0), (0, 1, 0)),
                          ((0, 0, 0), (1, 0, 0), (2::real, 0::real, 0::real))]
   \<and> \<not> [True, False] ! 1 \<and> \<bar>[1, 0 :: real] ! 1\<bar> < 1 / 10 ^ 12
   \<and> (\<exists>hit. ray_triangles (1 / 10 ^ 12 :: real)
      [((0, 0, 0), (1, 0, 0), (0, 1, 0)), ((0, 0, 0), (1, 0, 0), (2, 0, 0))]
      (1 / 4, 1 / 4, 1) (0, 0, - 1) = Some hit \<and> \<not> hit ! 1)"
proof -
  have h1: "\<forall>t\<in>set [((0, 0, 0), (1, 0, 0), (0, 1, 0)), ((0, 0, 0), (1, 0, 0), (2, 0, 0))].
      \<not> \<bar>tri_det (0, 0, - 1) t\<bar> < (1 / 10 ^ 12 :: real) \<longrightarrow> tri_det (0, 0, - 1) t \<noteq> 0"
    by (simp add: tri_steps)
  have h2: "det_stage (1 / 10 ^ 12 :: real)
      [((0, 0, 0), (1, 0, 0), (0, 1, 0)), ((0, 0, 0), (1, 0, 0), (2, 0, 0))] (0, 0, - 1)
    = Some ([(0, 0, 0), (0, 0, 0)], [(1, 0, 0), (1, 0, 0)], [(0, 1, 0), (2, 0, 0)],
            [(1, 0, 0), (0, - 2, 0)], [1, 0], [True, False])"
    by (simp add: det_stage_def ew2_def diag_dot_def mask_fill_def)
  have h3: "(1::nat) < length [((0, 0, 0), (1, 0, 0), (0, 1, 0)),
                               ((0, 0, 0), (1, 0, 0), (2::real, 0::real, 0::real))]"
    by simp
  show ?thesis
    using det_filter_excludes [OF h1 h2 h3, of "(1 / 4, 1 / 4, 1)"] h2 by auto
qed



text \<open>
  The hypothesis on the tolerance is needed: with a tolerance of zero a triangle whose
  plane contains the ray direction passes the first filter with a determinant of zero.
\<close>

lemma zero_tolerance_divides_by_zero:
  "ray_triangles (0 :: real) [((0, 0, 0), (1, 0, 0), (2, 0, 0))] (1 / 4, 1 / 4, 1) (0, 0, - 1)
     = None"
  by (simp add: ray_triangles_def det_stage_def ew2_def diag_dot_def mask_fill_def any_def
      bool_index_def compress_def reciprocal_def)

section \<open>Not-a-number in \<open>ray_triangles\<close>\<close>

lemma nan_plus [simp]: "x + NaN = NaN"
  by (cases x) simp_all

lemma nan_times [simp]: "x * NaN = NaN"
  by (cases x) simp_all

lemma nan_minus [simp]: "NaN - x = NaN" "x - NaN = NaN"
  by (simp_all add: minus_ieee_def)

lemma nan_divide [simp]: "x / NaN = NaN"
  by (cases x) simp_all

lemma nan_less [simp]: "\<not> x < NaN"
  by (cases x) simp_all

lemma nan_coordinate_t:
  assumes "tri_nan tri \<or> vec_nan orig \<or> vec_nan d"
  shows "tri_t orig d tri = NaN"
proof -
  obtain v0 v1 v2 where tri: "tri = (v0, v1, v2)" by (cases tri)
  obtain a0 a1 a2 where v0: "v0 = (a0, a1, a2)" by (cases v0)
  obtain b0 b1 b2 where v1: "v1 = (b0, b1, b2)" by (cases v1)
  obtain c0 c1 c2 where v2: "v2 = (c0, c1, c2)" by (cases v2)
  obtain o0 o1 o2 where orig: "orig = (o0, o1, o2)" by (cases orig)
  obtain d0 d1 d2 where d: "d = (d0, d1, d2)" by (cases d)
  show ?thesis
    using assms unfolding tri v0 v1 v2 orig d
    by (auto simp: tri_steps)
qed

lemma positive_tolerance:
  assumes "0 < tol"
  shows "\<not> \<bar>x\<bar> < Fin tol \<longrightarrow> x \<noteq> 0"
  using assms by (cases x) (auto simp: zero_ieee_def)

text \<open>
  Claim C9, as stated: on an input with NaN coordinates every comparison against the
  tolerance treats NaN as failing the condition of its filter, and a triangle with NaN
  among \<open>det\<close>, \<open>u\<close>, \<open>v\<close>, \<open>t\<close> is never reported as a hit. The batch below holds a triangle
  with a NaN coordinate and the first triangle of the section on floating-point values.
  Both are candidates after the first filter, the one with the determinant NaN; and the
  other, whose \<open>v\<close> is NaN, is reported as a hit.
\<close>

theorem nan_counterexample:
  "tri_nan ((NaN, Fin 0, Fin 0), (Fin 1, Fin 0, Fin 0), (Fin 0, Fin 1, Fin 0))
   \<and> (\<exists>vert0 edge0 edge1 P.
        det_stage (Fin (1 / 10 ^ 12))
          [((NaN, Fin 0, Fin 0), (Fin 1, Fin 0, Fin 0), (Fin 0, Fin 1, Fin 0)),
           ((Fin 0, Fin 0, Fin 0), (Fin huge, Fin 0, Fin 0), (Fin 0, Fin 1, Fin 0))]
          (Fin 0, Fin 0, Fin (- 1))
        = Some (vert0, edge0, edge1, P, [NaN, Fin huge], [True, True]))
   \<and> ray_triangles (Fin (1 / 10 ^ 12))
        [((NaN, Fin 0, Fin 0), (Fin 1, Fin 0, Fin 0), (Fin 0, Fin 1, Fin 0)),
         ((Fin 0, Fin 0, Fin 0), (Fin huge, Fin 0, Fin 0), (Fin 0, Fin 1, Fin 0))]
        (Fin (huge / 4), Fin (- 5), Fin huge) (Fin 0, Fin 0, Fin (- 1)) = Some [False, True]
   \<and> tri_v (Fin (huge / 4), Fin (- 5), Fin huge) (Fin 0, Fin 0, Fin (- 1))
        ((Fin 0, Fin 0, Fin 0), (Fin huge, Fin 0, Fin 0), (Fin 0, Fin 1, Fin 0)) = NaN"
proof -
  have a: "tri_nan ((NaN, Fin 0, Fin 0), (Fin 1, Fin 0, Fin 0), (Fin 0, Fin 1, Fin 0))"
    by simp
  have da: "tri_det (Fin 0, Fin 0, Fin (- 1))
      ((NaN, Fin 0, Fin 0), (Fin 1, Fin 0, Fin 0), (Fin 0, Fin 1, Fin 0)) = NaN"
    by (simp add: tri_steps ieee_defs)
  have "\<exists>vert0 edge0 edge1 P.
        det_stage (Fin (1 / 10 ^ 12))
          [((NaN, Fin 0, Fin 0), (Fin 1, Fin 0, Fin 0), (Fin 0, Fin 1, Fin 0)),
           ((Fin 0, Fin 0, Fin 0), (Fin huge, Fin 0, Fin 0), (Fin 0, Fin 1, Fin 0))]
          (Fin 0, Fin 0, Fin (- 1))
        = Some (vert0, edge0, edge1, P, [NaN, Fin huge], [True, True])"
    using huge_ge_1 by (simp add: det_stage_eq da overflow_det)
  moreover have h: "\<forall>t\<in>set [((NaN, Fin 0, Fin 0), (Fin 1, Fin 0, Fin 0), (Fin 0, Fin 1, Fin 0)),
           ((Fin 0, Fin 0, Fin 0), (Fin huge, Fin 0, Fin 0), (Fin 0, Fin 1, Fin 0))].
      \<not> \<bar>tri_det (Fin 0, Fin 0, Fin (- 1)) t\<bar> < Fin (1 / 10 ^ 12) \<longrightarrow> tri_det (Fin 0, Fin 0, Fin (- 1)) t \<noteq> 0"
    using huge_ge_1 by (simp add: da overflow_det ieee_defs)
  have na: "\<not> survives (Fin (1 / 10 ^ 12)) (Fin (huge / 4), Fin (- 5), Fin huge) (Fin 0, Fin 0, Fin (- 1))
      ((NaN, Fin 0, Fin 0), (Fin 1, Fin 0, Fin 0), (Fin 0, Fin 1, Fin 0))"
    using nan_coordinate_t [OF disjI1, OF a] by (simp add: survives_def)
  have "ray_triangles (Fin (1 / 10 ^ 12))
        [((NaN, Fin 0, Fin 0), (Fin 1, Fin 0, Fin 0), (Fin 0, Fin 1, Fin 0)),
         ((Fin 0, Fin 0, Fin 0), (Fin huge, Fin 0, Fin 0), (Fin 0, Fin 1, Fin 0))]
        (Fin (huge / 4), Fin (- 5), Fin huge) (Fin 0, Fin 0, Fin (- 1))
     = Some (map (survives (Fin (1 / 10 ^ 12)) (Fin (huge / 4), Fin (- 5), Fin huge) (Fin 0, Fin 0, Fin (- 1)))
        [((NaN, Fin 0, Fin 0), (Fin 1, Fin 0, Fin 0), (Fin 0, Fin 1, Fin 0)),
         ((Fin 0, Fin 0, Fin 0), (Fin huge, Fin 0, Fin 0), (Fin 0, Fin 1, Fin 0))])"
    using h by (rule ray_triangles_survives)
  then have "ray_triangles (Fin (1 / 10 ^ 12))
        [((NaN, Fin 0, Fin 0), (Fin 1, Fin 0, Fin 0), (Fin 0, Fin 1, Fin 0)),
         ((Fin 0, Fin 0, Fin 0), (Fin huge, Fin 0, Fin 0), (Fin 0, Fin 1, Fin 0))]
        (Fin (huge / 4), Fin (- 5), Fin huge) (Fin 0, Fin 0, Fin (- 1)) = Some [False, True]"
    using na by (simp only: list.map overflow_survives)
  ultimately show ?thesis
    using a overflow_v by (intro conjI)
qed

text \<open>
  Claim C9, amended. For every input in floating-point values and every positive
  tolerance \<open>ray_triangles\<close> returns a mask with one entry per triangle, and a triangle
  whose \<open>t\<close> is NaN is never reported as a hit; \<open>t\<close> is NaN whenever a coordinate of the
  triangle, of the ray origin or of the ray direction is NaN. (A NaN among \<open>det\<close>, \<open>u\<close>
  and \<open>v\<close> alone does not remove a triangle: the first three filters remove on a comparison
  that holds, and no comparison with NaN holds.)
\<close>

theorem nan_never_hit:
  assumes "0 < tol"
  shows "\<exists>hit. ray_triangles (Fin tol) triangles ray_origin ray_direction = Some hit
     \<and> length hit = length triangles
     \<and> (\<forall>i<length triangles.
          tri_nan (triangles ! i) \<or> vec_nan ray_origin \<or> vec_nan ray_direction
          \<or> tri_t ray_origin ray_direction (triangles ! i) = NaN \<longrightarrow> \<not> hit ! i)"
proof -
  have "\<forall>t\<in>set triangles. \<not> \<bar>tri_det ray_direction t\<bar> < Fin tol
          \<longrightarrow> tri_det ray_direction t \<noteq> 0"
    using positive_tolerance [OF assms] by blast
  then have r: "ray_triangles (Fin tol) triangles ray_origin ray_direction
      = Some (map (survives (Fin tol) ray_origin ray_direction) triangles)"
    by (rule ray_triangles_survives)
  have "\<not> survives (Fin tol) ray_origin ray_direction t"
    if "tri_nan t \<or> vec_nan ray_origin \<or> vec_nan ray_direction
        \<or> tri_t ray_origin ray_direction t = NaN" for t
  proof -
    from that have "tri_t ray_origin ray_direction t = NaN"
      using nan_coordinate_t by blast
    then show ?thesis by (simp add: survives_def)
  qed
  then show ?thesis using r by simp
qed

theorem nan_never_hit_witness:
  "0 < (1 / 10 ^ 12 :: real)
   \<and> tri_nan ((NaN, Fin 0, Fin 0), (Fin 1, Fin 0, Fin 0), (Fin 0, Fin 1, Fin 0))
   \<and> ray_triangles (Fin (1 / 10 ^ 12))
        [((NaN, Fin 0, Fin 0), (Fin 1, Fin 0, Fin 0), (Fin 0, Fin 1, Fin 0))]
        (Fin (1 / 4), Fin (1 / 4), Fin 1) (Fin 0, Fin 0, Fin (- 1)) = Some [False]"
proof -
  have h: "0 < (1 / 10 ^ 12 :: real)" by simp
  have a: "tri_nan ((NaN, Fin 0, Fin 0), (Fin 1, Fin 0, Fin 0), (Fin 0, Fin 1, Fin 0))"
    by simp
  from nan_never_hit [OF h,
      of "[((NaN, Fin 0, Fin 0), (Fin 1, Fin 0, Fin 0), (Fin 0, Fin 1, Fin 0))]"
         "(Fin (1 / 4), Fin (1 / 4), Fin 1)" "(Fin 0, Fin 0, Fin (- 1))"]
  obtain hit where r: "ray_triangles (Fin (1 / 10 ^ 12))
        [((NaN, Fin 0, Fin 0), (Fin 1, Fin 0, Fin 0), (Fin 0, Fin 1, Fin 0))]
        (Fin (1 / 4), Fin (1 / 4), Fin 1) (Fin 0, Fin 0, Fin (- 1)) = Some hit"
    and l: "length hit = 1" and n: "\<not> hit ! 0"
    using a by auto
  from l n have "hit = [False]"
    by (cases hit) auto
  with r h a show ?thesis by simp
qed

section \<open>Properties of \<open>rays_triangles_id\<close>\<close>

subsection \<open>The loop\<close>


lemma compress_Nil [simp]: "compress [] xs = []"
  by (simp add: compress_def)


lemma any_Nil [simp]: "\<not> any []"
  by (simp add: any_def)


lemma query_state:
  "query tol tris rc c i ray = Inr (c', hit) \<Longrightarrow> query tol tris rc c' j r = query tol tris rc c j r"
  by (cases rc) (auto simp: query_def split: sum.splits option.splits)

lemma loop_full_is_Hits:
  "ray_loop tol tris rc False i rays c hits = Inr r \<Longrightarrow> \<exists>rows. r = Hits rows"
  by (induction rays arbitrary: i c hits) (auto split: sum.splits prod.splits)

lemma loop_any_is_Any:
  "ray_loop tol tris rc True i rays c hits = Inr r \<Longrightarrow> \<exists>b. r = Any b"
  by (induction rays arbitrary: i c hits) (auto split: sum.splits prod.splits if_splits)



lemma those_map_Some [simp]: "those (map Some xs) = Some xs"
  by (induction xs) simp_all

lemma size_of_to_int [simp]: "size_of (to_int r) = size_of r"
  by (cases r) simp_all

lemma length_coerce [simp]: "length (coerce xs) = length xs"
  by (simp add: coerce_def)



lemma loop_any_True:
  "k < length rays \<Longrightarrow>
   (\<forall>j<k. \<exists>c' hit. query tol tris rc c (i + j) (rays ! j) = Inr (c', hit) \<and> \<not> any hit) \<Longrightarrow>
   (\<exists>c' hit. query tol tris rc c (i + k) (rays ! k) = Inr (c', hit) \<and> any hit) \<Longrightarrow>
   ray_loop tol tris rc True i rays c hits = Inr (Any True)"
proof (induction rays arbitrary: i c k)
  case Nil
  then show ?case by simp
next
  case (Cons ray rays)
  show ?case
  proof (cases k)
    case 0
    then show ?thesis using Cons.prems(3) by auto
  next
    case (Suc m)
    from Cons.prems(2) Suc obtain c' hit where
      q: "query tol tris rc c i ray = Inr (c', hit)" and n: "\<not> any hit"
      by force
    have m: "m < length rays" using Cons.prems(1) Suc by simp
    have a: "\<forall>j<m. \<exists>c'' hit. query tol tris rc c' (Suc i + j) (rays ! j) = Inr (c'', hit) \<and> \<not> any hit"
    proof (intro allI impI)
      fix j assume "j < m"
      then have "Suc j < k" using Suc by simp
      with Cons.prems(2) have "\<exists>c'' hit. query tol tris rc c (i + Suc j) ((ray # rays) ! Suc j) = Inr (c'', hit) \<and> \<not> any hit"
        by blast
      then show "\<exists>c'' hit. query tol tris rc c' (Suc i + j) (rays ! j) = Inr (c'', hit) \<and> \<not> any hit"
        using query_state [OF q] by simp
    qed
    have b: "\<exists>c'' hit. query tol tris rc c' (Suc i + m) (rays ! m) = Inr (c'', hit) \<and> any hit"
      using Cons.prems(3) Suc query_state [OF q] by simp
    show ?thesis
      using Cons.IH [OF m a b] q n by simp
  qed
qed

lemma loop_any_False:
  "ray_loop tol tris rc True i rays c hits = Inr (Any False) \<longleftrightarrow>
   (\<forall>j<length rays. \<exists>c' hit. query tol tris rc c (i + j) (rays ! j) = Inr (c', hit) \<and> \<not> any hit)"
proof (induction rays arbitrary: i c)
  case Nil
  then show ?case by simp
next
  case (Cons ray rays)
  show ?case
  proof (cases "query tol tris rc c i ray")
    case (Inl e)
    then have "\<not> (\<exists>c' hit. query tol tris rc c (i + 0) ((ray # rays) ! 0) = Inr (c', hit) \<and> \<not> any hit)"
      by simp
    then have "\<not> (\<forall>j<length (ray # rays). \<exists>c' hit. query tol tris rc c (i + j) ((ray # rays) ! j) = Inr (c', hit) \<and> \<not> any hit)"
      by blast
    then show ?thesis using Inl by simp
  next
    case (Inr p)
    obtain c' hit where p: "p = (c', hit)" by (cases p)
    have q: "query tol tris rc c i ray = Inr (c', hit)" using Inr p by simp
    show ?thesis
    proof (cases "any hit")
      case True
      then have "\<not> (\<exists>c' hit. query tol tris rc c (i + 0) ((ray # rays) ! 0) = Inr (c', hit) \<and> \<not> any hit)"
        using q by simp
      then have "\<not> (\<forall>j<length (ray # rays). \<exists>c' hit. query tol tris rc c (i + j) ((ray # rays) ! j) = Inr (c', hit) \<and> \<not> any hit)"
        by blast
      then show ?thesis using q True by simp
    next
      case False
      have "(\<forall>j<length (ray # rays). \<exists>c' hit. query tol tris rc c (i + j) ((ray # rays) ! j) = Inr (c', hit) \<and> \<not> any hit)
        \<longleftrightarrow> (\<forall>j<length rays. \<exists>c'' hit. query tol tris rc c' (Suc i + j) (rays ! j) = Inr (c'', hit) \<and> \<not> any hit)"
        (is "?L \<longleftrightarrow> ?R")
      proof
        assume l: ?L
        show ?R
        proof (intro allI impI)
          fix j assume "j < length rays"
          then have "Suc j < length (ray # rays)" by simp
          with l have "\<exists>c' hit. query tol tris rc c (i + Suc j) ((ray # rays) ! Suc j) = Inr (c', hit) \<and> \<not> any hit"
            by blast
          then show "\<exists>c'' hit. query tol tris rc c' (Suc i + j) (rays ! j) = Inr (c'', hit) \<and> \<not> any hit"
            using query_state [OF q] by simp
        qed
      next
        assume r: ?R
        show ?L
        proof (intro allI impI)
          fix j assume j: "j < length (ray # rays)"
          show "\<exists>c' hit. query tol tris rc c (i + j) ((ray # rays) ! j) = Inr (c', hit) \<and> \<not> any hit"
          proof (cases j)
            case 0
            then show ?thesis using q False by simp
          next
            case (Suc m)
            then have "m < length rays" using j by simp
            with r have "\<exists>c'' hit. query tol tris rc c' (Suc i + m) (rays ! m) = Inr (c'', hit) \<and> \<not> any hit"
              by blast
            then show ?thesis using Suc query_state [OF q] by simp
          qed
        qed
      qed
      then show ?thesis using q False Cons.IH [of "Suc i" c'] by simp
    qed
  qed
qed

lemma loop_any_True_conv:
  "ray_loop tol tris rc True i rays c hits = Inr (Any True) \<Longrightarrow>
   \<exists>k<length rays.
     (\<forall>j<k. \<exists>c' hit. query tol tris rc c (i + j) (rays ! j) = Inr (c', hit) \<and> \<not> any hit)
     \<and> (\<exists>c' hit. query tol tris rc c (i + k) (rays ! k) = Inr (c', hit) \<and> any hit)"
proof (induction rays arbitrary: i c)
  case Nil
  then show ?case by simp
next
  case (Cons ray rays)
  from Cons.prems obtain c' hit where q: "query tol tris rc c i ray = Inr (c', hit)"
    by (auto split: sum.splits)
  show ?case
  proof (cases "any hit")
    case True
    then have "(\<forall>j<0. \<exists>c' hit. query tol tris rc c (i + j) ((ray # rays) ! j) = Inr (c', hit) \<and> \<not> any hit)
     \<and> (\<exists>c' hit. query tol tris rc c (i + 0) ((ray # rays) ! 0) = Inr (c', hit) \<and> any hit)"
      using q by simp
    then show ?thesis by blast
  next
    case False
    then have "ray_loop tol tris rc True (Suc i) rays c' hits = Inr (Any True)"
      using Cons.prems q by simp
    from Cons.IH [OF this] obtain k where k: "k < length rays"
      and a: "\<forall>j<k. \<exists>c'' hit. query tol tris rc c' (Suc i + j) (rays ! j) = Inr (c'', hit) \<and> \<not> any hit"
      and b: "\<exists>c'' hit. query tol tris rc c' (Suc i + k) (rays ! k) = Inr (c'', hit) \<and> any hit"
      by blast
    have a': "\<exists>c' hit. query tol tris rc c (i + j) ((ray # rays) ! j) = Inr (c', hit) \<and> \<not> any hit"
      if "j < Suc k" for j
    proof (cases j)
      case 0
      then show ?thesis using q False by simp
    next
      case (Suc m)
      then have "m < k" using that by simp
      with a have "\<exists>c'' hit. query tol tris rc c' (Suc i + m) (rays ! m) = Inr (c'', hit) \<and> \<not> any hit"
        by blast
      then show ?thesis using Suc query_state [OF q] by simp
    qed
    have b': "\<exists>c' hit. query tol tris rc c (i + Suc k) ((ray # rays) ! Suc k) = Inr (c', hit) \<and> any hit"
      using b query_state [OF q] by simp
    have "Suc k < length (ray # rays)" using k by simp
    with a' b' show ?thesis by blast
  qed
qed

lemma query_mismatch:
  assumes "length cs \<le> j
           \<or> (\<exists>bs. cs ! j = BoolArr bs \<and> bs \<noteq> [] \<and> length bs \<noteq> length tris)"
  shows "query tol tris (Some cs) c j ray = Inl IndexError"
  using assms by (auto simp: query_def getitem_def)

lemmas run_defs = rays_triangles_id_def query_def getitem_def compress_def any_def
  np_array_def coerce_def

subsection \<open>The documented scenario\<close>

text \<open>
  Claim C1. One triangle \<open>(0,0,0), (1,0,0), (0,1,0)\<close>, no candidates supplied and
  \<open>return_any\<close> false. The claim expects the entry \<open>[0]\<close>, the index of the triangle, for
  the ray from \<open>(0.25, 0.25, 1)\<close> in direction \<open>(0, 0, -1)\<close>, and an empty entry for the ray
  from \<open>(5, 5, 1)\<close>. The code returns the second, but for the first ray it records
  \<open>[True]\<close>: without \<open>ray_candidates\<close> the variable \<open>candidates\<close> is the boolean mask of line
  35, and \<open>np.array(candidates)[hit]\<close> selects entries of that mask, not triangle indices.
  The theorem evaluates the code on both rays, for every tolerance between 0 and 1.
\<close>

theorem scenario_default_candidates:
  fixes tol :: real
  assumes "0 < tol" and "tol < 1"
  shows "rays_triangles_id tol [((0, 0, 0), (1, 0, 0), (0, 1, 0))]
            [((1 / 4, 1 / 4, 1), (0, 0, - 1))] None False = Inr (Hits [BoolArr [True]])
       \<and> rays_triangles_id tol [((0, 0, 0), (1, 0, 0), (0, 1, 0))]
            [((5, 5, 1), (0, 0, - 1))] None False = Inr (Hits [BoolArr []])"
  using assms by (simp add: run_defs ray_triangles_eq tri_defs)

theorem scenario_default_candidates_witness:
  "0 < (1 / 10 ^ 12 :: real) \<and> (1 / 10 ^ 12 :: real) < 1
   \<and> rays_triangles_id (1 / 10 ^ 12 :: real) [((0, 0, 0), (1, 0, 0), (0, 1, 0))]
        [((1 / 4, 1 / 4, 1), (0, 0, - 1))] None False = Inr (Hits [BoolArr [True]])
   \<and> rays_triangles_id (1 / 10 ^ 12 :: real) [((0, 0, 0), (1, 0, 0), (0, 1, 0))]
        [((1 / 4, 1 / 4, 1), (0, 0, - 1))] None False \<noteq> Inr (Hits [IntArr [0]])"
proof -
  have h1: "0 < (1 / 10 ^ 12 :: real)" by simp
  have h2: "(1 / 10 ^ 12 :: real) < 1" by simp
  show ?thesis
    using scenario_default_candidates [OF h1 h2] h1 h2 by simp
qed

subsection \<open>Any-mode against the full result\<close>




subsection \<open>No rays, no triangles\<close>

lemma ray_triangles_Nil: "ray_triangles tol [] orig d = Some []"
  by (simp add: ray_triangles_def det_stage_def ew2_def diag_dot_def mask_fill_def any_def)

lemma query_no_triangles:
  "size_of c = 0 \<Longrightarrow> query tol [] None c i ray = Inr (c, [])"
  by (cases c) (simp_all add: query_def ray_triangles_Nil)

lemma query_no_triangles_supplied:
  "i < length cs \<Longrightarrow> size_of (cs ! i) = 0 \<Longrightarrow> query tol [] (Some cs) c i ray = Inr (cs ! i, [])"
  by (cases "cs ! i") (simp_all add: query_def getitem_def ray_triangles_Nil)

lemma take_hits_Nil: "size_of c = 0 \<Longrightarrow> take_hits c [] = Inr c"
  by (cases c) simp_all

lemma loop_no_triangles_default:
  "size_of c = 0 \<Longrightarrow> i + length rays \<le> length hits \<Longrightarrow>
   ray_loop tol [] None False i rays c hits
     = (case np_array (take i hits @ replicate (length rays) (Some c)
                       @ drop (i + length rays) hits) of
          Inl e \<Rightarrow> Inl e | Inr rows \<Rightarrow> Inr (Hits rows))"
proof (induction rays arbitrary: i hits)
  case Nil
  then show ?case by simp
next
  case (Cons ray rays)
  have "take (Suc i) (hits[i := Some c]) = take i hits @ [Some c]"
    using Cons.prems(2) by (simp add: take_Suc_conv_app_nth)
  then show ?case
    using Cons.prems Cons.IH [of "Suc i" "hits[i := Some c]"]
    by (simp add: query_no_triangles take_hits_Nil)
qed

lemma loop_no_triangles_supplied:
  "i + length rays \<le> length cs \<Longrightarrow> \<forall>j<length rays. size_of (cs ! (i + j)) = 0 \<Longrightarrow>
   i + length rays \<le> length hits \<Longrightarrow>
   ray_loop tol [] (Some cs) False i rays c hits
     = (case np_array (take i hits @ map Some (take (length rays) (drop i cs))
                       @ drop (i + length rays) hits) of
          Inl e \<Rightarrow> Inl e | Inr rows \<Rightarrow> Inr (Hits rows))"
proof (induction rays arbitrary: i hits c)
  case Nil
  then show ?case by simp
next
  case (Cons ray rays)
  have i: "i < length cs" "size_of (cs ! i) = 0"
    using Cons.prems(1,2) by auto
  have t: "take (Suc i) (hits[i := Some (cs ! i)]) = take i hits @ [Some (cs ! i)]"
    using Cons.prems(3) by (simp add: take_Suc_conv_app_nth)
  have d: "take (Suc (length rays)) (drop i cs) = cs ! i # take (length rays) (drop (Suc i) cs)"
    using i(1) by (simp add: Cons_nth_drop_Suc [symmetric])
  have r: "\<forall>j<length rays. size_of (cs ! (Suc i + j)) = 0"
    using Cons.prems(2) by fastforce
  have "ray_loop tol [] (Some cs) False (Suc i) rays (cs ! i) (hits[i := Some (cs ! i)])
     = (case np_array (take (Suc i) (hits[i := Some (cs ! i)])
                       @ map Some (take (length rays) (drop (Suc i) cs))
                       @ drop (Suc i + length rays) (hits[i := Some (cs ! i)])) of
          Inl e \<Rightarrow> Inl e | Inr rows \<Rightarrow> Inr (Hits rows))"
    using Cons.prems(1,3) by (intro Cons.IH r) simp_all
  then show ?case
    using i t d by (simp add: query_no_triangles_supplied take_hits_Nil)
qed

lemma np_array_empty_rows:
  "\<forall>r\<in>set xs. size_of r = 0 \<Longrightarrow> np_array (map Some xs) = Inr (coerce xs)"
  by (cases xs) (auto simp: np_array_def list_all_iff)

text \<open>
  Claim C7. Without rays the result is the empty array, or false when \<open>return_any\<close> is
  set, whatever the triangles and candidates are: the loop body, and with it
  \<open>ray_triangles\<close>, is never entered. Without triangles \<open>ray_triangles\<close> returns the empty
  mask, and every ray's row is empty (false when \<open>return_any\<close> is set), both with the
  default candidates and with supplied candidate sets, which are then empty.
\<close>

theorem empty_inputs:
  "rays_triangles_id tol triangles [] ray_candidates False = Inr (Hits [])
   \<and> rays_triangles_id tol triangles [] ray_candidates True = Inr (Any False)
   \<and> ray_triangles tol [] ray_origin ray_direction = Some []
   \<and> rays_triangles_id tol [] rays None False = Inr (Hits (replicate (length rays) (BoolArr [])))
   \<and> rays_triangles_id tol [] rays None True = Inr (Any False)
   \<and> (length rays \<le> length cs \<and> (\<forall>j<length rays. size_of (cs ! j) = 0) \<longrightarrow>
        rays_triangles_id tol [] rays (Some cs) False
          = Inr (Hits (coerce (take (length rays) cs)))
        \<and> (\<forall>r\<in>set (coerce (take (length rays) cs)). size_of r = 0)
        \<and> rays_triangles_id tol [] rays (Some cs) True = Inr (Any False))"
proof -
  have a: "rays_triangles_id tol triangles [] ray_candidates False = Inr (Hits [])"
    by (simp add: rays_triangles_id_def np_array_def coerce_def)
  have b: "rays_triangles_id tol triangles [] ray_candidates True = Inr (Any False)"
    by (simp add: rays_triangles_id_def)
  have "np_array (map Some (replicate (length rays) (BoolArr [])))
      = Inr (coerce (replicate (length rays) (BoolArr [])))"
    by (intro np_array_empty_rows) simp
  then have "np_array (replicate (length rays) (Some (BoolArr [])))
      = Inr (replicate (length rays) (BoolArr []))"
    by (simp add: coerce_def list_all_iff)
  then have c: "rays_triangles_id tol [] rays None False
      = Inr (Hits (replicate (length rays) (BoolArr [])))"
    using loop_no_triangles_default [of "BoolArr []" 0 rays "replicate (length rays) None" tol]
    by (simp add: rays_triangles_id_def)
  have d: "rays_triangles_id tol [] rays None True = Inr (Any False)"
    unfolding rays_triangles_id_def loop_any_False
    by (simp add: query_no_triangles)
  have e: "rays_triangles_id tol [] rays (Some cs) False
          = Inr (Hits (coerce (take (length rays) cs)))
        \<and> (\<forall>r\<in>set (coerce (take (length rays) cs)). size_of r = 0)"
    if l: "length rays \<le> length cs" and z: "\<forall>j<length rays. size_of (cs ! j) = 0"
  proof -
    have zs: "\<forall>r\<in>set (take (length rays) cs). size_of r = 0"
      using l z by (auto simp: in_set_conv_nth)
    then have "np_array (map Some (take (length rays) cs)) = Inr (coerce (take (length rays) cs))"
      by (rule np_array_empty_rows)
    then have "rays_triangles_id tol [] rays (Some cs) False
          = Inr (Hits (coerce (take (length rays) cs)))"
      using loop_no_triangles_supplied [of 0 rays cs "replicate (length rays) None" tol] l z
      by (simp add: rays_triangles_id_def)
    moreover have "\<forall>r\<in>set (coerce (take (length rays) cs)). size_of r = 0"
      using zs by (auto simp: coerce_def)
    ultimately show ?thesis by blast
  qed
  have f: "rays_triangles_id tol [] rays (Some cs) True = Inr (Any False)"
    if "length rays \<le> length cs" "\<forall>j<length rays. size_of (cs ! j) = 0"
    unfolding rays_triangles_id_def loop_any_False
    using that by (simp add: query_no_triangles_supplied)
  show ?thesis
    using a b c d e f ray_triangles_Nil by blast
qed

theorem empty_inputs_witness:
  "length [((5, 5, 1), (0, 0, - 1)), ((1 / 4, 1 / 4, 1), (0, 0, - 1)) :: real ray]
      \<le> length [IntArr [], BoolArr []]
   \<and> size_of ([IntArr [], BoolArr []] ! 0) = 0 \<and> size_of ([IntArr [], BoolArr []] ! 1) = 0
   \<and> rays_triangles_id (1 / 10 ^ 12 :: real) []
        [((5, 5, 1), (0, 0, - 1)), ((1 / 4, 1 / 4, 1), (0, 0, - 1))]
        (Some [IntArr [], BoolArr []]) False = Inr (Hits [IntArr [], IntArr []])
   \<and> rays_triangles_id (1 / 10 ^ 12 :: real) []
        [((5, 5, 1), (0, 0, - 1)), ((1 / 4, 1 / 4, 1), (0, 0, - 1))]
        (Some [IntArr [], BoolArr []]) True = Inr (Any False)"
proof -
  have h1: "length [((5, 5, 1), (0, 0, - 1)), ((1 / 4, 1 / 4, 1), (0, 0, - 1)) :: real ray]
      \<le> length [IntArr [], BoolArr []]"
    by simp
  have h2: "\<forall>j<length [((5, 5, 1), (0, 0, - 1)), ((1 / 4, 1 / 4, 1), (0, 0, - 1)) :: real ray].
         size_of ([IntArr [], BoolArr []] ! j) = 0"
    by (simp add: less_Suc_eq)
  show ?thesis
    using empty_inputs [where tol = "1 / 10 ^ 12 :: real" and triangles = "[]"
        and ray_candidates = None and ray_origin = "(0, 0, 0)" and ray_direction = "(0, 0, 1)"
        and rays = "[((5, 5, 1), (0, 0, - 1)), ((1 / 4, 1 / 4, 1), (0, 0, - 1))]"
        and cs = "[IntArr [], BoolArr []]"] h1 h2
    by (simp add: coerce_def)
qed

subsection \<open>The early exit\<close>

text \<open>
  Claim C6. With \<open>return_any\<close> set the call returns true exactly when some ray \<open>k\<close> has a
  hit mask with a true entry and every ray before it was queried without error and
  without a hit; nothing is asked of the rays after \<open>k\<close>, so the result is the same
  whatever follows ray \<open>k\<close>. It returns false exactly when every ray was queried without
  error and without a hit.
\<close>

theorem return_any_short_circuit:
  "(rays_triangles_id tol triangles rays ray_candidates True = Inr (Any True) \<longleftrightarrow>
      (\<exists>k<length rays.
         (\<forall>j<k. \<exists>c hit. query tol triangles ray_candidates
                    (BoolArr (replicate (length triangles) True)) j (rays ! j) = Inr (c, hit)
                  \<and> \<not> any hit)
         \<and> (\<exists>c hit. query tol triangles ray_candidates
                    (BoolArr (replicate (length triangles) True)) k (rays ! k) = Inr (c, hit)
                  \<and> any hit)))
   \<and> (rays_triangles_id tol triangles rays ray_candidates True = Inr (Any False) \<longleftrightarrow>
      (\<forall>j<length rays. \<exists>c hit. query tol triangles ray_candidates
                    (BoolArr (replicate (length triangles) True)) j (rays ! j) = Inr (c, hit)
                  \<and> \<not> any hit))
   \<and> ((\<forall>j<length before. \<exists>c hit. query tol triangles ray_candidates
                    (BoolArr (replicate (length triangles) True)) j (before ! j) = Inr (c, hit)
                  \<and> \<not> any hit)
       \<and> (\<exists>c hit. query tol triangles ray_candidates
                    (BoolArr (replicate (length triangles) True)) (length before) ray = Inr (c, hit)
                  \<and> any hit)
       \<longrightarrow> rays_triangles_id tol triangles (before @ ray # after) ray_candidates True
             = Inr (Any True))"
proof -
  let ?D = "BoolArr (replicate (length triangles) True)"
  have a: "rays_triangles_id tol triangles rays ray_candidates True = Inr (Any True) \<longleftrightarrow>
      (\<exists>k<length rays.
         (\<forall>j<k. \<exists>c hit. query tol triangles ray_candidates ?D j (rays ! j) = Inr (c, hit)
                  \<and> \<not> any hit)
         \<and> (\<exists>c hit. query tol triangles ray_candidates ?D k (rays ! k) = Inr (c, hit)
                  \<and> any hit))"
    unfolding rays_triangles_id_def
    using loop_any_True [of _ rays tol triangles ray_candidates ?D 0 "replicate (length rays) None"]
      loop_any_True_conv [of tol triangles ray_candidates 0 rays ?D "replicate (length rays) None"]
    by auto
  have b: "rays_triangles_id tol triangles rays ray_candidates True = Inr (Any False) \<longleftrightarrow>
      (\<forall>j<length rays. \<exists>c hit. query tol triangles ray_candidates ?D j (rays ! j) = Inr (c, hit)
                  \<and> \<not> any hit)"
    unfolding rays_triangles_id_def loop_any_False by simp
  have c: "rays_triangles_id tol triangles (before @ ray # after) ray_candidates True
             = Inr (Any True)"
    if m: "\<forall>j<length before. \<exists>c hit. query tol triangles ray_candidates ?D j (before ! j) = Inr (c, hit)
                  \<and> \<not> any hit"
      and h: "\<exists>c hit. query tol triangles ray_candidates ?D (length before) ray = Inr (c, hit)
                  \<and> any hit"
  proof -
    have "length before < length (before @ ray # after)" by simp
    moreover have "\<forall>j<length before. \<exists>c hit.
        query tol triangles ray_candidates ?D (0 + j) ((before @ ray # after) ! j) = Inr (c, hit)
        \<and> \<not> any hit"
      using m by (simp add: nth_append)
    moreover have "\<exists>c hit. query tol triangles ray_candidates ?D (0 + length before)
        ((before @ ray # after) ! length before) = Inr (c, hit) \<and> any hit"
      using h by simp
    ultimately show ?thesis
      unfolding rays_triangles_id_def by (rule loop_any_True)
  qed
  show ?thesis
    using a b c by blast
qed

theorem return_any_short_circuit_witness:
  "query (1 / 10 ^ 12 :: real) [((0, 0, 0), (1, 0, 0), (0, 1, 0))]
         (Some [IntArr [0], IntArr [0]])
         (BoolArr (replicate (length [((0, 0, 0), (1, 0, 0), (0, 1, 0 :: real))]) True))
         0 ((5, 5, 1), (0, 0, - 1)) = Inr (IntArr [0], [False])
   \<and> query (1 / 10 ^ 12 :: real) [((0, 0, 0), (1, 0, 0), (0, 1, 0))]
         (Some [IntArr [0], IntArr [0]])
         (BoolArr (replicate (length [((0, 0, 0), (1, 0, 0), (0, 1, 0 :: real))]) True))
         1 ((1 / 4, 1 / 4, 1), (0, 0, - 1)) = Inr (IntArr [0], [True])
   \<and> query (1 / 10 ^ 12 :: real) [((0, 0, 0), (1, 0, 0), (0, 1, 0))]
         (Some [IntArr [0], IntArr [0]])
         (BoolArr (replicate (length [((0, 0, 0), (1, 0, 0), (0, 1, 0 :: real))]) True))
         2 ((1 / 4, 1 / 4, 1), (0, 0, - 1)) = Inl IndexError
   \<and> rays_triangles_id (1 / 10 ^ 12 :: real) [((0, 0, 0), (1, 0, 0), (0, 1, 0))]
       ([((5, 5, 1), (0, 0, - 1))] @ ((1 / 4, 1 / 4, 1), (0, 0, - 1))
          # [((1 / 4, 1 / 4, 1), (0, 0, - 1))])
       (Some [IntArr [0], IntArr [0]]) True = Inr (Any True)"
proof -
  have q0: "query (1 / 10 ^ 12 :: real) [((0, 0, 0), (1, 0, 0), (0, 1, 0))]
         (Some [IntArr [0], IntArr [0]])
         (BoolArr (replicate (length [((0, 0, 0), (1, 0, 0), (0, 1, 0 :: real))]) True))
         0 ((5, 5, 1), (0, 0, - 1)) = Inr (IntArr [0], [False])"
    by (simp add: run_defs ray_triangles_eq tri_defs)
  have q1: "query (1 / 10 ^ 12 :: real) [((0, 0, 0), (1, 0, 0), (0, 1, 0))]
         (Some [IntArr [0], IntArr [0]])
         (BoolArr (replicate (length [((0, 0, 0), (1, 0, 0), (0, 1, 0 :: real))]) True))
         1 ((1 / 4, 1 / 4, 1), (0, 0, - 1)) = Inr (IntArr [0], [True])"
    by (simp add: run_defs ray_triangles_eq tri_defs)
  have q2: "query (1 / 10 ^ 12 :: real) [((0, 0, 0), (1, 0, 0), (0, 1, 0))]
         (Some [IntArr [0], IntArr [0]])
         (BoolArr (replicate (length [((0, 0, 0), (1, 0, 0), (0, 1, 0 :: real))]) True))
         2 ((1 / 4, 1 / 4, 1), (0, 0, - 1)) = Inl IndexError"
    by (simp add: run_defs)
  have h1: "\<forall>j<length [((5, 5, 1), (0, 0, - 1)) :: real ray]. \<exists>c hit.
       query (1 / 10 ^ 12 :: real) [((0, 0, 0), (1, 0, 0), (0, 1, 0))]
         (Some [IntArr [0], IntArr [0]])
         (BoolArr (replicate (length [((0, 0, 0), (1, 0, 0), (0, 1, 0 :: real))]) True))
         j ([((5, 5, 1), (0, 0, - 1))] ! j) = Inr (c, hit) \<and> \<not> any hit"
    using q0 by (simp add: any_def)
  have h2: "\<exists>c hit.
       query (1 / 10 ^ 12 :: real) [((0, 0, 0), (1, 0, 0), (0, 1, 0))]
         (Some [IntArr [0], IntArr [0]])
         (BoolArr (replicate (length [((0, 0, 0), (1, 0, 0), (0, 1, 0 :: real))]) True))
         (length [((5, 5, 1), (0, 0, - 1)) :: real ray]) ((1 / 4, 1 / 4, 1), (0, 0, - 1))
       = Inr (c, hit) \<and> any hit"
    using q1 by (simp add: any_def)
  have "rays_triangles_id (1 / 10 ^ 12 :: real) [((0, 0, 0), (1, 0, 0), (0, 1, 0))]
       ([((5, 5, 1), (0, 0, - 1))] @ ((1 / 4, 1 / 4, 1), (0, 0, - 1))
          # [((1 / 4, 1 / 4, 1), (0, 0, - 1))])
       (Some [IntArr [0], IntArr [0]]) True = Inr (Any True)"
    using return_any_short_circuit [where tol = "1 / 10 ^ 12 :: real"
        and triangles = "[((0, 0, 0), (1, 0, 0), (0, 1, 0))]"
        and ray_candidates = "Some [IntArr [0], IntArr [0]]"
        and rays = "[]"
        and before = "[((5, 5, 1), (0, 0, - 1))]" and ray = "((1 / 4, 1 / 4, 1), (0, 0, - 1))"
        and after = "[((1 / 4, 1 / 4, 1), (0, 0, - 1))]", THEN conjunct2, THEN conjunct2]
      h1 h2
    by blast
  with q0 q1 q2 show ?thesis
    by (intro conjI)
qed

subsection \<open>Supplied candidate sets against the default\<close>

text \<open>
  Claim C5. The hits reported under a supplied candidate set are to be among those
  reported with the full candidate set, and a candidate set that includes the triangle
  hit is to give the original result. The theorem evaluates the code on the triangle and
  the first ray of claim C1. With the candidate set \<open>[0]\<close> the row is \<open>[0]\<close>, and with no
  triangle as candidate it is empty; but with the default, which is the full candidate
  set, the row is \<open>[True]\<close>, by the defect of claim C1: the index 0 is not among the hits
  reported with the full set, and the original result is not the one the candidate set
  \<open>[0]\<close> gives. With a second triangle and the mask \<open>[False, True]\<close>, a candidate set that
  holds the triangle hit, the call raises at line 46.
\<close>

theorem candidate_sets_against_default:
  fixes tol :: real
  assumes "0 < tol" and "tol < 1"
  shows "rays_triangles_id tol [((0, 0, 0), (1, 0, 0), (0, 1, 0))]
            [((1 / 4, 1 / 4, 1), (0, 0, - 1))] (Some [IntArr [0]]) False = Inr (Hits [IntArr [0]])
       \<and> rays_triangles_id tol [((0, 0, 0), (1, 0, 0), (0, 1, 0))]
            [((1 / 4, 1 / 4, 1), (0, 0, - 1))] (Some [IntArr []]) False = Inr (Hits [IntArr []])
       \<and> rays_triangles_id tol [((0, 0, 0), (1, 0, 0), (0, 1, 0))]
            [((1 / 4, 1 / 4, 1), (0, 0, - 1))] None False = Inr (Hits [BoolArr [True]])
       \<and> rays_triangles_id tol [((0, 0, 5), (1, 0, 5), (0, 1, 5)), ((0, 0, 0), (1, 0, 0), (0, 1, 0))]
            [((1 / 4, 1 / 4, 1), (0, 0, - 1))] None False = Inr (Hits [BoolArr [True]])
       \<and> rays_triangles_id tol [((0, 0, 5), (1, 0, 5), (0, 1, 5)), ((0, 0, 0), (1, 0, 0), (0, 1, 0))]
            [((1 / 4, 1 / 4, 1), (0, 0, - 1))] (Some [BoolArr [False, True]]) False = Inl IndexError"
  using assms by (simp add: run_defs ray_triangles_eq tri_defs)

theorem candidate_sets_against_default_witness:
  "0 < (1 / 10 ^ 12 :: real) \<and> (1 / 10 ^ 12 :: real) < 1
   \<and> rays_triangles_id (1 / 10 ^ 12 :: real) [((0, 0, 0), (1, 0, 0), (0, 1, 0))]
        [((1 / 4, 1 / 4, 1), (0, 0, - 1))] (Some [IntArr [0]]) False = Inr (Hits [IntArr [0]])
   \<and> rays_triangles_id (1 / 10 ^ 12 :: real) [((0, 0, 0), (1, 0, 0), (0, 1, 0))]
        [((1 / 4, 1 / 4, 1), (0, 0, - 1))] None False = Inr (Hits [BoolArr [True]])
   \<and> IntArr [0] \<noteq> BoolArr [True]"
proof -
  have h1: "0 < (1 / 10 ^ 12 :: real)" by simp
  have h2: "(1 / 10 ^ 12 :: real) < 1" by simp
  show ?thesis
    using candidate_sets_against_default [OF h1 h2] h1 h2 by simp
qed

subsection \<open>Arrays whose lengths do not agree\<close>

lemma take_rows_error: "take_rows xs c = Inl e \<Longrightarrow> e = IndexError"
  by (cases c) (simp_all add: Let_def split: if_splits)

lemma getitem_error: "getitem xs i = Inl e \<Longrightarrow> e = IndexError"
  by (simp add: getitem_def split: if_splits)

lemma take_hits_error: "take_hits c hit = Inl e \<Longrightarrow> e = IndexError"
  by (cases c) (auto split: if_splits)

lemma query_error:
  assumes "\<forall>sel orig d. ray_triangles tol sel orig d \<noteq> None"
    and "query tol tris rc c i ray = Inl e"
  shows "e = IndexError"
proof (cases "case rc of None \<Rightarrow> Inr c | Some cs \<Rightarrow> getitem cs i")
  case (Inl e')
  then have "e' = IndexError"
    by (cases rc) (simp_all add: getitem_error)
  then show ?thesis using assms(2) Inl by (simp add: query_def)
next
  case (Inr c')
  show ?thesis
  proof (cases "take_rows tris c'")
    case (Inl e')
    then show ?thesis using assms(2) Inr take_rows_error [OF Inl] by (simp add: query_def)
  next
    case r: (Inr sel)
    from assms(1) obtain hit where "ray_triangles tol sel (fst ray) (snd ray) = Some hit"
      by fastforce
    then show ?thesis
      using assms(2) Inr r by (simp add: query_def)
  qed
qed

text \<open>A ray whose query raises makes the loop raise \<open>IndexError\<close>, unless an earlier ray ends it.\<close>

lemma loop_bad_full:
  assumes "\<forall>sel orig d. ray_triangles tol sel orig d \<noteq> None"
  shows "j < length rays \<Longrightarrow> query tol tris rc c (i + j) (rays ! j) = Inl e \<Longrightarrow>
    ray_loop tol tris rc False i rays c hits = Inl IndexError"
proof (induction rays arbitrary: i c hits j)
  case Nil
  then show ?case by simp
next
  case (Cons ray rays)
  show ?case
  proof (cases "query tol tris rc c i ray")
    case (Inl e')
    then show ?thesis using query_error [OF assms Inl] by simp
  next
    case (Inr p)
    obtain c' hit where p: "p = (c', hit)" by (cases p)
    have q: "query tol tris rc c i ray = Inr (c', hit)" using Inr p by simp
    from Cons.prems(2) q obtain m where m: "j = Suc m"
      by (cases j) simp_all
    show ?thesis
    proof (cases "take_hits c' hit")
      case (Inl e')
      then show ?thesis using q take_hits_error [OF Inl] by simp
    next
      case r: (Inr found)
      have "m < length rays" using Cons.prems(1) m by simp
      moreover have "query tol tris rc c' (Suc i + m) (rays ! m) = Inl e"
        using Cons.prems(2) m query_state [OF q] by simp
      ultimately have "ray_loop tol tris rc False (Suc i) rays c' (hits[i := Some found])
          = Inl IndexError"
        by (rule Cons.IH)
      then show ?thesis using q r by simp
    qed
  qed
qed

lemma loop_bad_any:
  assumes "\<forall>sel orig d. ray_triangles tol sel orig d \<noteq> None"
  shows "j < length rays \<Longrightarrow> query tol tris rc c (i + j) (rays ! j) = Inl e \<Longrightarrow>
    ray_loop tol tris rc True i rays c hits = Inl IndexError
    \<or> ray_loop tol tris rc True i rays c hits = Inr (Any True)"
proof (induction rays arbitrary: i c j)
  case Nil
  then show ?case by simp
next
  case (Cons ray rays)
  show ?case
  proof (cases "query tol tris rc c i ray")
    case (Inl e')
    then show ?thesis using query_error [OF assms Inl] by simp
  next
    case (Inr p)
    obtain c' hit where p: "p = (c', hit)" by (cases p)
    have q: "query tol tris rc c i ray = Inr (c', hit)" using Inr p by simp
    from Cons.prems(2) q obtain m where m: "j = Suc m"
      by (cases j) simp_all
    show ?thesis
    proof (cases "any hit")
      case True
      then show ?thesis using q by simp
    next
      case False
      have "m < length rays" using Cons.prems(1) m by simp
      moreover have "query tol tris rc c' (Suc i + m) (rays ! m) = Inl e"
        using Cons.prems(2) m query_state [OF q] by simp
      ultimately have "ray_loop tol tris rc True (Suc i) rays c' hits = Inl IndexError
          \<or> ray_loop tol tris rc True (Suc i) rays c' hits = Inr (Any True)"
        by (rule Cons.IH)
      then show ?thesis using q False by simp
    qed
  qed
qed

text \<open>
  Claim C8, as stated: every input whose array lengths disagree raises. With one entry of
  \<open>ray_candidates\<close> for two rays and \<open>return_any\<close> set, the first ray hits and the call
  returns true; with two entries for one ray, the second of them a mask of the wrong
  length, the call returns the row of the one ray; and with the empty mask as the
  candidates of one triangle it returns an empty row.
\<close>

theorem mismatch_counterexample:
  "rays_triangles_id (1 / 10 ^ 12 :: real) [((0, 0, 0), (1, 0, 0), (0, 1, 0))]
      [((1 / 4, 1 / 4, 1), (0, 0, - 1)), ((1 / 4, 1 / 4, 1), (0, 0, - 1))]
      (Some [IntArr [0]]) True = Inr (Any True)
   \<and> rays_triangles_id (1 / 10 ^ 12 :: real) [((0, 0, 0), (1, 0, 0), (0, 1, 0))]
      [((1 / 4, 1 / 4, 1), (0, 0, - 1))]
      (Some [IntArr [0], BoolArr [True, False, True]]) False = Inr (Hits [IntArr [0]])
   \<and> rays_triangles_id (1 / 10 ^ 12 :: real) [((0, 0, 0), (1, 0, 0), (0, 1, 0))]
      [((1 / 4, 1 / 4, 1), (0, 0, - 1))] (Some [BoolArr []]) False = Inr (Hits [BoolArr []])"
  by (simp add: run_defs ray_triangles_eq tri_defs ray_triangles_Nil)

text \<open>
  Claim C8, amended. The function checks nothing itself; what raises is the indexing.
  For every arithmetic in which \<open>ray_triangles\<close> returns on every batch: when
  \<open>ray_candidates\<close> has fewer entries than there are rays, or the entry of some ray is a
  boolean mask that is not empty and whose length is not the number of triangles, the
  call with \<open>return_any\<close> false raises \<open>IndexError\<close>, and the call with \<open>return_any\<close> true
  raises \<open>IndexError\<close> or returns true (an earlier ray hit).
\<close>

theorem mismatch_raises_unless_hit:
  assumes "\<forall>sel orig d. ray_triangles tol sel orig d \<noteq> None"
    and "length cs < length rays
         \<or> (\<exists>i<length rays. \<exists>bs. cs ! i = BoolArr bs \<and> bs \<noteq> []
                \<and> length bs \<noteq> length triangles)"
  shows "rays_triangles_id tol triangles rays (Some cs) False = Inl IndexError
       \<and> (rays_triangles_id tol triangles rays (Some cs) True = Inl IndexError
          \<or> rays_triangles_id tol triangles rays (Some cs) True = Inr (Any True))"
proof -
  let ?D = "BoolArr (replicate (length triangles) True)"
  have "\<exists>j<length rays.
      length cs \<le> j
      \<or> (\<exists>bs. cs ! j = BoolArr bs \<and> bs \<noteq> [] \<and> length bs \<noteq> length triangles)"
  proof (cases "length cs < length rays")
    case True
    then have "length cs < length rays \<and> length cs \<le> length cs" by simp
    then show ?thesis by blast
  next
    case False
    with assms(2) show ?thesis by blast
  qed
  then obtain j where j: "j < length rays"
    and bad: "length cs \<le> j
      \<or> (\<exists>bs. cs ! j = BoolArr bs \<and> bs \<noteq> [] \<and> length bs \<noteq> length triangles)"
    by blast
  have q: "query tol triangles (Some cs) ?D (0 + j) (rays ! j) = Inl IndexError"
    using query_mismatch [OF bad] by simp
  have "ray_loop tol triangles (Some cs) False 0 rays ?D (replicate (length rays) None)
      = Inl IndexError"
    using assms(1) j q by (rule loop_bad_full)
  moreover have "ray_loop tol triangles (Some cs) True 0 rays ?D (replicate (length rays) None)
      = Inl IndexError
    \<or> ray_loop tol triangles (Some cs) True 0 rays ?D (replicate (length rays) None)
      = Inr (Any True)"
    using assms(1) j q by (rule loop_bad_any)
  ultimately show ?thesis
    by (simp add: rays_triangles_id_def)
qed

theorem mismatch_raises_unless_hit_witness:
  "length [IntArr [0]]
       < length [((1 / 4, 1 / 4, 1), (0, 0, - 1)), ((1 / 4, 1 / 4, 1), (0, 0, - 1)) :: real ray]
   \<and> ray_triangles (1 / 10 ^ 12 :: real) [((0, 0, 0), (1, 0, 0), (0, 1, 0))] (1 / 4, 1 / 4, 1) (0, 0, - 1) \<noteq> None
   \<and> rays_triangles_id (1 / 10 ^ 12 :: real) [((0, 0, 0), (1, 0, 0), (0, 1, 0))]
      [((1 / 4, 1 / 4, 1), (0, 0, - 1)), ((1 / 4, 1 / 4, 1), (0, 0, - 1))]
      (Some [IntArr [0]]) False = Inl IndexError"
proof -
  have h1: "\<forall>sel orig d. ray_triangles (1 / 10 ^ 12 :: real) sel orig d \<noteq> None"
    by (simp add: ray_triangles_eq)
  have h2: "length [IntArr [0]]
       < length [((1 / 4, 1 / 4, 1), (0, 0, - 1)), ((1 / 4, 1 / 4, 1), (0, 0, - 1)) :: real ray]
    \<or> (\<exists>i<length [((1 / 4, 1 / 4, 1), (0, 0, - 1)), ((1 / 4, 1 / 4, 1), (0, 0, - 1)) :: real ray].
         \<exists>bs. [IntArr [0]] ! i = BoolArr bs \<and> bs \<noteq> []
            \<and> length bs \<noteq> length [((0, 0, 0), (1, 0, 0), (0, 1, 0)) :: real triangle])"
    by simp
  show ?thesis
    using mismatch_raises_unless_hit [OF h1 h2] h1 by simp
qed

end
